theory Spec2Isabelle
  imports Complex_Main "HOL-Library.Multiset" "HOL-Library.Char_ord" "HOL-Library.List_Lexorder"
    "HOL-Library.AList" "HOL-Library.Log_Nat"
begin

section \<open>JavaScript numbers (platform)\<close>

text \<open>
  A JavaScript number is an IEEE 754 double: a finite value, one of the two infinities, or
  \<open>NaN\<close>. A finite double is given by its exact rational value. The sign of zero is not
  kept: the program reads a zero only in sums, in the comparisons \<open>> 0\<close>, in tests of
  truthiness and in \<open>JSON.stringify\<close>, and none of these tells \<open>-0\<close> from \<open>0\<close>.
\<close>

datatype number = Finite rat | Infinity | NegInfinity | NaN

text \<open>Powers of two with an integer exponent, and for \<open>q > 0\<close> the exponent \<open>e\<close> with
  \<open>2 ^ e \<le> q < 2 ^ (e + 1)\<close>.\<close>

definition pow2 :: "int \<Rightarrow> rat" where
  "pow2 e = (if 0 \<le> e then 2 ^ nat e else 1 / 2 ^ nat (- e))"

definition floor_log2 :: "rat \<Rightarrow> int" where
  "floor_log2 q = (if 1 \<le> q then bitlen \<lfloor>q\<rfloor> - 1 else - bitlen (\<lceil>1 / q\<rceil> - 1))"

text \<open>The nearest integer, the even one of two that are equally near.\<close>

definition round_half_even :: "rat \<Rightarrow> int" where
  "round_half_even x =
     (let f = \<lfloor>x\<rfloor>; d = x - of_int f
      in if d < 1 / 2 then f
         else if 1 / 2 < d then f + 1
         else if even f then f else f + 1)"

text \<open>
  The double nearest to a rational (round to nearest, ties to even): the significand has
  53 bits, so the doubles around \<open>q\<close> are the multiples of \<open>2 ^ (e - 52)\<close>, where \<open>e\<close> is
  the exponent of \<open>q\<close>, not below \<open>-1022\<close> (the subnormal numbers are the multiples of
  \<open>2 ^ -1074\<close>); a result of \<open>2 ^ 1024\<close> or more is an infinity. This is the value of a
  number literal and of the result of an arithmetic operation.
\<close>

definition to_double :: "rat \<Rightarrow> number" where
  "to_double q =
     (if q = 0 then Finite 0
      else
        (let e = max (floor_log2 \<bar>q\<bar>) (- 1022);
             ulp = pow2 (e - 52);
             r = of_int (round_half_even (\<bar>q\<bar> / ulp)) * ulp
         in if pow2 1024 \<le> r then (if 0 < q then Infinity else NegInfinity)
            else Finite (if 0 < q then r else - r)))"

text \<open>The operators the program applies to numbers: \<open>+\<close>, \<open>-\<close>, \<open>*\<close>, \<open>/\<close> and
  \<open>>\<close>. A division by zero is an infinity, or \<open>NaN\<close> for \<open>0 / 0\<close>; a comparison with
  \<open>NaN\<close> is false.\<close>

fun is_neg :: "number \<Rightarrow> bool" where
  "is_neg (Finite x) = (x < 0)"
| "is_neg NegInfinity = True"
| "is_neg _ = False"

definition infinity :: "bool \<Rightarrow> number" where
  "infinity neg = (if neg then NegInfinity else Infinity)"

fun js_neg :: "number \<Rightarrow> number" where
  "js_neg (Finite x) = Finite (- x)"
| "js_neg Infinity = NegInfinity"
| "js_neg NegInfinity = Infinity"
| "js_neg NaN = NaN"

fun js_add :: "number \<Rightarrow> number \<Rightarrow> number" where
  "js_add (Finite x) (Finite y) = to_double (x + y)"
| "js_add NaN b = NaN"
| "js_add a NaN = NaN"
| "js_add (Finite x) b = b"
| "js_add a (Finite y) = a"
| "js_add a b = (if a = b then a else NaN)"

definition js_sub :: "number \<Rightarrow> number \<Rightarrow> number" where
  "js_sub a b = js_add a (js_neg b)"

fun js_mul :: "number \<Rightarrow> number \<Rightarrow> number" where
  "js_mul (Finite x) (Finite y) = to_double (x * y)"
| "js_mul NaN b = NaN"
| "js_mul a NaN = NaN"
| "js_mul a b = (if a = Finite 0 \<or> b = Finite 0 then NaN else infinity (is_neg a \<noteq> is_neg b))"

fun js_div :: "number \<Rightarrow> number \<Rightarrow> number" where
  "js_div (Finite x) (Finite y) =
     (if y = 0 then (if x = 0 then NaN else infinity (x < 0)) else to_double (x / y))"
| "js_div NaN b = NaN"
| "js_div a NaN = NaN"
| "js_div (Finite x) b = Finite 0"
| "js_div a (Finite y) = infinity (is_neg a \<noteq> (y < 0))"
| "js_div a b = NaN"

fun js_gt :: "number \<Rightarrow> number \<Rightarrow> bool" where
  "js_gt (Finite x) (Finite y) = (y < x)"
| "js_gt NaN b = False"
| "js_gt a NaN = False"
| "js_gt Infinity b = (b \<noteq> Infinity)"
| "js_gt a NegInfinity = (a \<noteq> NegInfinity)"
| "js_gt a b = False"

section \<open>Entity model (src/types/index.ts)\<close>

text \<open>
  The four persisted entities and the two derived summaries. Identifiers, names and dates
  are strings, amounts and percentages are JavaScript numbers. An optional TypeScript field
  (\<open>notes?\<close> of a Portion, \<open>activePeriodId?\<close>) is an \<open>option\<close>, \<open>None\<close> for \<open>undefined\<close>.
  Field names that occur in several interfaces carry the interface name as a prefix.
\<close>

record Period =
  Period_id :: string
  Period_name :: string
  startDate :: string
  endDate :: string
  incomeAmount :: number

record Portion =
  Portion_id :: string
  Portion_periodId :: string
  Portion_name :: string
  budgetAmount :: number
  Portion_notes :: "string option"

record Expense =
  Expense_id :: string
  Expense_periodId :: string
  portionId :: string
  date :: string
  description :: string
  amount :: number

record AppData =
  version :: string
  createdAt :: string
  lastUsedAt :: string
  periods :: "Period list"
  portions :: "Portion list"
  expenses :: "Expense list"
  activePeriodId :: "string option"

record PortionSummary =
  portion :: Portion
  budget :: number
  used :: number
  remaining :: number
  percentUsed :: number
  isOverBudget :: bool

record PeriodSummary =
  totalIncome :: number
  totalBudgeted :: number
  totalExpenses :: number
  remainingBudget :: number
  remainingIncome :: number
  unallocatedIncome :: number
  overallPercentUsed :: number
  PeriodSummary_isOverBudget :: bool

section \<open>Summary engine (src/services/dataService.ts)\<close>

text \<open>\<open>Array.prototype.reduce\<close> with an initial value is a left fold.\<close>

definition reduce :: "('b \<Rightarrow> 'a \<Rightarrow> 'b) \<Rightarrow> 'b \<Rightarrow> 'a list \<Rightarrow> 'b" where
  "reduce f init xs = foldl f init xs"

definition calculatePortionSummary :: "Portion \<Rightarrow> Expense list \<Rightarrow> PortionSummary" where
  "calculatePortionSummary p es =
     (let portionExpenses = filter (\<lambda>e. portionId e = Portion_id p) es;
          used' = reduce (\<lambda>sum e. js_add sum (amount e)) (Finite 0) portionExpenses;
          remaining' = js_sub (budgetAmount p) used';
          percentUsed' = (if js_gt (budgetAmount p) (Finite 0)
                          then js_mul (js_div used' (budgetAmount p)) (Finite 100)
                          else Finite 0)
      in \<lparr> portion = p,
           budget = budgetAmount p,
           used = used',
           remaining = remaining',
           percentUsed = percentUsed',
           isOverBudget = js_gt used' (budgetAmount p) \<rparr>)"

definition calculatePeriodSummary :: "Period \<Rightarrow> Portion list \<Rightarrow> Expense list \<Rightarrow> PeriodSummary" where
  "calculatePeriodSummary period ps es =
     (let periodPortions = filter (\<lambda>p. Portion_periodId p = Period_id period) ps;
          periodExpenses = filter (\<lambda>e. Expense_periodId e = Period_id period) es;
          totalIncome' = incomeAmount period;
          totalBudgeted' = reduce (\<lambda>sum p. js_add sum (budgetAmount p)) (Finite 0) periodPortions;
          totalExpenses' = reduce (\<lambda>sum e. js_add sum (amount e)) (Finite 0) periodExpenses
      in \<lparr> totalIncome = totalIncome',
           totalBudgeted = totalBudgeted',
           totalExpenses = totalExpenses',
           remainingBudget = js_sub totalBudgeted' totalExpenses',
           remainingIncome = js_sub totalIncome' totalExpenses',
           unallocatedIncome = js_sub totalIncome' totalBudgeted',
           overallPercentUsed = (if js_gt totalBudgeted' (Finite 0)
                                 then js_mul (js_div totalExpenses' totalBudgeted') (Finite 100)
                                 else Finite 0),
           PeriodSummary_isOverBudget = js_gt totalExpenses' totalBudgeted' \<rparr>)"

definition getPortionSummaries :: "string \<Rightarrow> Portion list \<Rightarrow> Expense list \<Rightarrow> PortionSummary list" where
  "getPortionSummaries periodId ps es =
     (let periodPortions = filter (\<lambda>p. Portion_periodId p = periodId) ps;
          periodExpenses = filter (\<lambda>e. Expense_periodId e = periodId) es
      in map (\<lambda>p. calculatePortionSummary p periodExpenses) periodPortions)"

section \<open>Data-access facade (the hook \<open>useBudgetData\<close>)\<close>

text \<open>
  The hook keeps \<open>data : AppData | null\<close>. Every mutation callback hands React an updater
  \<open>prev \<Rightarrow> next\<close>; the updaters are modelled as functions on \<open>AppData option\<close>
  (\<open>None\<close> for \<open>null\<close>). An object spread \<open>{...prev, f: v}\<close> is a record update.
  The identifier produced by \<open>generateId()\<close> is an argument of the three \<open>add\<close> callbacks.
\<close>

text \<open>\<open>Partial<T>\<close>: every field may be absent (\<open>None\<close>); \<open>{...p, ...updates}\<close> overwrites
  the fields that are there. For the optional \<open>notes\<close> the update may also carry the key with
  the value \<open>undefined\<close> (\<open>Some None\<close>).\<close>

record PeriodUpdates =
  upd_Period_id :: "string option"
  upd_Period_name :: "string option"
  upd_startDate :: "string option"
  upd_endDate :: "string option"
  upd_incomeAmount :: "number option"

record PortionUpdates =
  upd_Portion_id :: "string option"
  upd_Portion_periodId :: "string option"
  upd_Portion_name :: "string option"
  upd_budgetAmount :: "number option"
  upd_Portion_notes :: "string option option"

record ExpenseUpdates =
  upd_Expense_id :: "string option"
  upd_Expense_periodId :: "string option"
  upd_portionId :: "string option"
  upd_date :: "string option"
  upd_description :: "string option"
  upd_amount :: "number option"

definition orElse :: "'a option \<Rightarrow> 'a \<Rightarrow> 'a" where
  "orElse u old = (case u of None \<Rightarrow> old | Some v \<Rightarrow> v)"

definition spread_Period :: "Period \<Rightarrow> PeriodUpdates \<Rightarrow> Period" where
  "spread_Period p u =
     \<lparr> Period_id = orElse (upd_Period_id u) (Period_id p),
       Period_name = orElse (upd_Period_name u) (Period_name p),
       startDate = orElse (upd_startDate u) (startDate p),
       endDate = orElse (upd_endDate u) (endDate p),
       incomeAmount = orElse (upd_incomeAmount u) (incomeAmount p) \<rparr>"

definition spread_Portion :: "Portion \<Rightarrow> PortionUpdates \<Rightarrow> Portion" where
  "spread_Portion p u =
     \<lparr> Portion_id = orElse (upd_Portion_id u) (Portion_id p),
       Portion_periodId = orElse (upd_Portion_periodId u) (Portion_periodId p),
       Portion_name = orElse (upd_Portion_name u) (Portion_name p),
       budgetAmount = orElse (upd_budgetAmount u) (budgetAmount p),
       Portion_notes = orElse (upd_Portion_notes u) (Portion_notes p) \<rparr>"

definition spread_Expense :: "Expense \<Rightarrow> ExpenseUpdates \<Rightarrow> Expense" where
  "spread_Expense e u =
     \<lparr> Expense_id = orElse (upd_Expense_id u) (Expense_id e),
       Expense_periodId = orElse (upd_Expense_periodId u) (Expense_periodId e),
       portionId = orElse (upd_portionId u) (portionId e),
       date = orElse (upd_date u) (date e),
       description = orElse (upd_description u) (description e),
       amount = orElse (upd_amount u) (amount e) \<rparr>"

subsection \<open>Period operations\<close>

definition setActivePeriod :: "string \<Rightarrow> AppData option \<Rightarrow> AppData option" where
  "setActivePeriod periodId prev =
     (case prev of None \<Rightarrow> None
      | Some d \<Rightarrow> Some (d\<lparr>activePeriodId := Some periodId\<rparr>))"

text \<open>\<open>{ ...period, id: generateId() }\<close>: whatever \<open>id\<close> the argument carries is overwritten.\<close>

definition addPeriod :: "string \<Rightarrow> Period \<Rightarrow> AppData option \<Rightarrow> AppData option" where
  "addPeriod newId period prev =
     (let newPeriod = period\<lparr>Period_id := newId\<rparr>
      in case prev of None \<Rightarrow> None
         | Some d \<Rightarrow> Some (d\<lparr>periods := periods d @ [newPeriod],
                             activePeriodId := Some (Period_id newPeriod)\<rparr>))"

definition updatePeriod :: "string \<Rightarrow> PeriodUpdates \<Rightarrow> AppData option \<Rightarrow> AppData option" where
  "updatePeriod periodId updates prev =
     (case prev of None \<Rightarrow> None
      | Some d \<Rightarrow>
          Some (d\<lparr>periods :=
                  map (\<lambda>p. if Period_id p = periodId then spread_Period p updates else p)
                      (periods d)\<rparr>))"

definition deletePeriod :: "string \<Rightarrow> AppData option \<Rightarrow> AppData option" where
  "deletePeriod periodId prev =
     (case prev of None \<Rightarrow> None
      | Some d \<Rightarrow>
          (let newPeriods = filter (\<lambda>p. Period_id p \<noteq> periodId) (periods d)
           in Some (d\<lparr>periods := newPeriods,
                      portions := filter (\<lambda>p. Portion_periodId p \<noteq> periodId) (portions d),
                      expenses := filter (\<lambda>e. Expense_periodId e \<noteq> periodId) (expenses d),
                      activePeriodId :=
                        (case newPeriods of [] \<Rightarrow> None
                         | p # _ \<Rightarrow> Some (Period_id p))\<rparr>)))"

subsection \<open>Portion operations\<close>

definition addPortion :: "string \<Rightarrow> Portion \<Rightarrow> AppData option \<Rightarrow> AppData option" where
  "addPortion newId p prev =
     (let newPortion = p\<lparr>Portion_id := newId\<rparr>
      in case prev of None \<Rightarrow> None
         | Some d \<Rightarrow> Some (d\<lparr>portions := portions d @ [newPortion]\<rparr>))"

definition updatePortion :: "string \<Rightarrow> PortionUpdates \<Rightarrow> AppData option \<Rightarrow> AppData option" where
  "updatePortion pid updates prev =
     (case prev of None \<Rightarrow> None
      | Some d \<Rightarrow>
          Some (d\<lparr>portions :=
                  map (\<lambda>p. if Portion_id p = pid then spread_Portion p updates else p)
                      (portions d)\<rparr>))"

definition deletePortion :: "string \<Rightarrow> AppData option \<Rightarrow> AppData option" where
  "deletePortion pid prev =
     (case prev of None \<Rightarrow> None
      | Some d \<Rightarrow>
          Some (d\<lparr>portions := filter (\<lambda>p. Portion_id p \<noteq> pid) (portions d),
                   expenses := filter (\<lambda>e. portionId e \<noteq> pid) (expenses d)\<rparr>))"

subsection \<open>Expense operations\<close>

definition addExpense :: "string \<Rightarrow> Expense \<Rightarrow> AppData option \<Rightarrow> AppData option" where
  "addExpense newId e prev =
     (let newExpense = e\<lparr>Expense_id := newId\<rparr>
      in case prev of None \<Rightarrow> None
         | Some d \<Rightarrow> Some (d\<lparr>expenses := expenses d @ [newExpense]\<rparr>))"

definition updateExpense :: "string \<Rightarrow> ExpenseUpdates \<Rightarrow> AppData option \<Rightarrow> AppData option" where
  "updateExpense eid updates prev =
     (case prev of None \<Rightarrow> None
      | Some d \<Rightarrow>
          Some (d\<lparr>expenses :=
                  map (\<lambda>e. if Expense_id e = eid then spread_Expense e updates else e)
                      (expenses d)\<rparr>))"

definition deleteExpense :: "string \<Rightarrow> AppData option \<Rightarrow> AppData option" where
  "deleteExpense eid prev =
     (case prev of None \<Rightarrow> None
      | Some d \<Rightarrow> Some (d\<lparr>expenses := filter (\<lambda>e. Expense_id e \<noteq> eid) (expenses d)\<rparr>))"

subsection \<open>Filtered expenses\<close>

text \<open>
  JavaScript compares strings with \<open>>=\<close> and \<open><=\<close> lexicographically by code unit: the
  order of \<open>string\<close> from \<open>List_Lexorder\<close> over \<open>Char_ord\<close>. \<open>a.localeCompare(b)\<close> is
  the collation of the platform's locale, which is no part of the program: it is an argument
  of the model, negative, zero or positive as \<open>a\<close> sorts before, with or after \<open>b\<close>.
\<close>








section \<open>JavaScript values and JSON (platform)\<close>

text \<open>
  \<open>JSON.parse\<close> yields untyped values, and TypeScript's \<open>as AppData\<close> checks
  nothing, so the persistence service is modelled on the values themselves: the values
  that JSON denotes, and the numbers that are no JSON (\<open>NaN\<close> and the infinities can be
  in an object in memory). A string is its sequence of bytes in UTF-8 (\<open>char\<close> is a byte).
  An object is the list of its properties in insertion order (JavaScript lists
  integer-like names first; the data model has none). A property whose value is
  \<open>undefined\<close> is left out: reading it gives \<open>undefined\<close> and \<open>JSON.stringify\<close> omits
  it, as if it were not there.
\<close>

datatype json =
    JNull
  | JBool bool
  | JNum number
  | JStr string
  | JArr "json list"
  | JObj "(string \<times> json) list"

text \<open>Exceptions: the two that the runtime raises in this code, the storage's quota error,
  and \<open>new Error(message)\<close>.\<close>

datatype exn = SyntaxError | TypeError | QuotaExceededError | Error string

text \<open>\<open>data.k\<close>: reading a property of \<open>null\<close> raises; a number, string, boolean
  or array has none of the names the program reads (\<open>None\<close> is \<open>undefined\<close>).\<close>

fun get_prop :: "json \<Rightarrow> string \<Rightarrow> exn + json option" where
  "get_prop JNull k = Inl TypeError"
| "get_prop (JObj kvs) k = Inr (map_of kvs k)"
| "get_prop _ k = Inr None"

text \<open>\<open>data.k = v\<close> in module (strict) code: an existing property keeps its place, a new
  one is appended; assigning to a property of \<open>null\<close> or of a primitive raises. A named
  property put on an array is no part of its JSON content and is not kept.\<close>

fun set_prop :: "json \<Rightarrow> string \<Rightarrow> json \<Rightarrow> exn + json" where
  "set_prop (JObj kvs) k v = Inr (JObj (AList.update k v kvs))"
| "set_prop (JArr xs) k v = Inr (JArr xs)"
| "set_prop _ k v = Inl TypeError"

text \<open>Truthiness, with \<open>None\<close> for \<open>undefined\<close>: of the numbers, zero and \<open>NaN\<close> are
  falsy.\<close>

fun truthy :: "json option \<Rightarrow> bool" where
  "truthy None = False"
| "truthy (Some JNull) = False"
| "truthy (Some (JBool b)) = b"
| "truthy (Some (JNum n)) = (n \<noteq> Finite 0 \<and> n \<noteq> NaN)"
| "truthy (Some (JStr s)) = (s \<noteq> [])"
| "truthy (Some (JArr xs)) = True"
| "truthy (Some (JObj kvs)) = True"

subsection \<open>\<open>JSON.stringify\<close>\<close>

definition digit_char :: "nat \<Rightarrow> char" where
  "digit_char d = ''0123456789abcdef'' ! d"

function digits :: "int \<Rightarrow> string" where
  "digits n = (if n < 10 then [digit_char (nat n)]
               else digits (n div 10) @ [digit_char (nat (n mod 10))])"
  by pat_completeness auto
termination
  by (relation "measure nat") auto

text \<open>\<open>Number::toString\<close> of a finite number: an integer below \<open>1e21\<close> is printed with
  its decimal digits. Any other double is printed with the shortest digits that denote it,
  with an exponent where it is large or small: that printing is the argument \<open>fmt\<close>, taken
  from the platform.\<close>

definition Number_toString :: "(rat \<Rightarrow> string) \<Rightarrow> rat \<Rightarrow> string" where
  "Number_toString fmt q =
     (let a = \<bar>q\<bar>
      in if a = of_int \<lfloor>a\<rfloor> \<and> a < 10 ^ 21
         then (if q < 0 then ''-'' else []) @ digits \<lfloor>a\<rfloor>
         else fmt q)"

text \<open>\<open>QuoteJSONString\<close>: the quote, the backslash and the control characters are
  escaped.\<close>

definition quote_char :: "char \<Rightarrow> string" where
  "quote_char c =
     (if c = CHR 0x22 then [CHR 0x5C, CHR 0x22]
      else if c = CHR 0x5C then [CHR 0x5C, CHR 0x5C]
      else if c = CHR 0x08 then [CHR 0x5C, CHR ''b'']
      else if c = CHR 0x0C then [CHR 0x5C, CHR ''f'']
      else if c = CHR 0x0A then [CHR 0x5C, CHR ''n'']
      else if c = CHR 0x0D then [CHR 0x5C, CHR ''r'']
      else if c = CHR 0x09 then [CHR 0x5C, CHR ''t'']
      else if c < CHR 0x20
        then [CHR 0x5C, CHR ''u'', CHR ''0'', CHR ''0'',
              digit_char (of_char c div 16), digit_char (of_char c mod 16)]
      else [c])"

definition QuoteJSONString :: "string \<Rightarrow> string" where
  "QuoteJSONString s = CHR 0x22 # concat (map quote_char s) @ [CHR 0x22]"

text \<open>A number that is not finite is printed as \<open>null\<close>. With a gap of \<open>gap\<close> spaces (\<open>0\<close> for none) and the current indentation
  \<open>ind\<close>: a non-empty array or object puts each entry on a line of its own when there is
  a gap, and a colon is followed by a space then.\<close>

definition newline_indent :: "nat \<Rightarrow> nat \<Rightarrow> string" where
  "newline_indent gap ind = (if gap = 0 then [] else CHR 0x0A # replicate ind CHR '' '')"

definition colon :: "nat \<Rightarrow> string" where
  "colon gap = (if gap = 0 then '':'' else '': '')"

fun stringify :: "(rat \<Rightarrow> string) \<Rightarrow> nat \<Rightarrow> nat \<Rightarrow> json \<Rightarrow> string"
and stringify_elements :: "(rat \<Rightarrow> string) \<Rightarrow> nat \<Rightarrow> nat \<Rightarrow> json list \<Rightarrow> string"
and stringify_members :: "(rat \<Rightarrow> string) \<Rightarrow> nat \<Rightarrow> nat \<Rightarrow> (string \<times> json) list \<Rightarrow> string"
where
  "stringify fmt gap ind JNull = ''null''"
| "stringify fmt gap ind (JBool b) = (if b then ''true'' else ''false'')"
| "stringify fmt gap ind (JNum n) =
     (case n of Finite q \<Rightarrow> Number_toString fmt q | _ \<Rightarrow> ''null'')"
| "stringify fmt gap ind (JStr s) = QuoteJSONString s"
| "stringify fmt gap ind (JArr []) = ''[]''"
| "stringify fmt gap ind (JArr (x # xs)) =
     ''['' @ newline_indent gap (ind + gap) @ stringify_elements fmt gap (ind + gap) (x # xs)
       @ newline_indent gap ind @ '']''"
| "stringify fmt gap ind (JObj []) = ''{}''"
| "stringify fmt gap ind (JObj (m # ms)) =
     ''{'' @ newline_indent gap (ind + gap) @ stringify_members fmt gap (ind + gap) (m # ms)
       @ newline_indent gap ind @ ''}''"
| "stringify_elements fmt gap ind [] = []"
| "stringify_elements fmt gap ind [x] = stringify fmt gap ind x"
| "stringify_elements fmt gap ind (x # y # ys) =
     stringify fmt gap ind x @ '','' @ newline_indent gap ind @ stringify_elements fmt gap ind (y # ys)"
| "stringify_members fmt gap ind [] = []"
| "stringify_members fmt gap ind [(k, v)] = QuoteJSONString k @ colon gap @ stringify fmt gap ind v"
| "stringify_members fmt gap ind ((k, v) # m # ms) =
     QuoteJSONString k @ colon gap @ stringify fmt gap ind v @ '','' @ newline_indent gap ind
       @ stringify_members fmt gap ind (m # ms)"

definition JSON_stringify :: "(rat \<Rightarrow> string) \<Rightarrow> json \<Rightarrow> string" where
  "JSON_stringify fmt v = stringify fmt 0 0 v"


subsection \<open>\<open>JSON.parse\<close>\<close>

definition is_ws :: "char \<Rightarrow> bool" where
  "is_ws c = (c = CHR '' '' \<or> c = CHR 0x09 \<or> c = CHR 0x0A \<or> c = CHR 0x0D)"

fun skip_ws :: "string \<Rightarrow> string" where
  "skip_ws [] = []"
| "skip_ws (c # cs) = (if is_ws c then skip_ws cs else c # cs)"

definition is_digit :: "char \<Rightarrow> bool" where
  "is_digit c = (CHR ''0'' \<le> c \<and> c \<le> CHR ''9'')"

definition digit_val :: "char \<Rightarrow> int" where
  "digit_val c = of_char c - 48"

fun parse_digits :: "int \<Rightarrow> string \<Rightarrow> int \<times> string" where
  "parse_digits acc [] = (acc, [])"
| "parse_digits acc (c # cs) =
     (if is_digit c then parse_digits (10 * acc + digit_val c) cs else (acc, c # cs))"

text \<open>The grammar of a number: an optional sign, an integer part without a leading zero,
  an optional fraction, an optional exponent. The number is the double nearest to the
  value of the literal: a literal too small in magnitude is zero, one too large an
  infinity.\<close>

definition parse_int :: "string \<Rightarrow> (int \<times> string) option" where
  "parse_int s =
     (case s of [] \<Rightarrow> None
      | c # cs \<Rightarrow>
          if c = CHR ''0'' then Some (0, cs)
          else if is_digit c then Some (parse_digits (digit_val c) cs)
          else None)"

definition parse_fraction :: "string \<Rightarrow> (rat \<times> string) option" where
  "parse_fraction s =
     (case s of
        [] \<Rightarrow> Some (0, s)
      | c # cs \<Rightarrow>
          if c \<noteq> CHR ''.'' then Some (0, s)
          else
            (case cs of
               [] \<Rightarrow> None
             | d # _ \<Rightarrow>
                 if \<not> is_digit d then None
                 else
                   (let (f, r) = parse_digits 0 cs
                    in Some (of_int f / 10 ^ (length cs - length r), r))))"

definition parse_exponent :: "string \<Rightarrow> (int \<times> string) option" where
  "parse_exponent s =
     (case s of
        [] \<Rightarrow> Some (0, s)
      | c # cs \<Rightarrow>
          if c \<noteq> CHR ''e'' \<and> c \<noteq> CHR ''E'' then Some (0, s)
          else
            (let minus = (case cs of [] \<Rightarrow> False | x # _ \<Rightarrow> x = CHR ''-'');
                 plus = (case cs of [] \<Rightarrow> False | x # _ \<Rightarrow> x = CHR ''+'');
                 ds = (if minus \<or> plus then tl cs else cs)
             in case ds of
                  [] \<Rightarrow> None
                | d # _ \<Rightarrow>
                    if \<not> is_digit d then None
                    else
                      (let (e, r) = parse_digits 0 ds
                       in Some (if minus then - e else e, r))))"

definition power10 :: "int \<Rightarrow> rat" where
  "power10 e = (if 0 \<le> e then 10 ^ nat e else 1 / 10 ^ nat (- e))"

definition parse_number :: "string \<Rightarrow> (json \<times> string) option" where
  "parse_number s =
     (let neg = (case s of [] \<Rightarrow> False | c # _ \<Rightarrow> c = CHR ''-'');
          s1 = (if neg then tl s else s)
      in case parse_int s1 of
           None \<Rightarrow> None
         | Some (n, r1) \<Rightarrow>
             (case parse_fraction r1 of
                None \<Rightarrow> None
              | Some (f, r2) \<Rightarrow>
                  (case parse_exponent r2 of
                     None \<Rightarrow> None
                   | Some (e, r3) \<Rightarrow>
                       Some (JNum (to_double ((if neg then - 1 else 1) * (of_int n + f) * power10 e)),
                             r3))))"

definition hex_val :: "char \<Rightarrow> nat option" where
  "hex_val c =
     (if is_digit c then Some (of_char c - 48)
      else if CHR ''a'' \<le> c \<and> c \<le> CHR ''f'' then Some (of_char c - 87)
      else if CHR ''A'' \<le> c \<and> c \<le> CHR ''F'' then Some (of_char c - 55)
      else None)"

definition hex4 :: "char \<Rightarrow> char \<Rightarrow> char \<Rightarrow> char \<Rightarrow> nat option" where
  "hex4 a b c d =
     (case (hex_val a, hex_val b, hex_val c, hex_val d) of
        (Some x, Some y, Some z, Some w) \<Rightarrow> Some (((x * 16 + y) * 16 + z) * 16 + w)
      | _ \<Rightarrow> None)"

definition unescape :: "char \<Rightarrow> char option" where
  "unescape e =
     (if e = CHR 0x22 then Some (CHR 0x22)
      else if e = CHR 0x5C then Some (CHR 0x5C)
      else if e = CHR ''/'' then Some (CHR ''/'')
      else if e = CHR ''b'' then Some (CHR 0x08)
      else if e = CHR ''f'' then Some (CHR 0x0C)
      else if e = CHR ''n'' then Some (CHR 0x0A)
      else if e = CHR ''r'' then Some (CHR 0x0D)
      else if e = CHR ''t'' then Some (CHR 0x09)
      else None)"

definition cons_fst :: "'a \<Rightarrow> ('a list \<times> 'b) option \<Rightarrow> ('a list \<times> 'b) option" where
  "cons_fst x r = map_option (\<lambda>(xs, rest). (x # xs, rest)) r"

definition append_fst :: "'a list \<Rightarrow> ('a list \<times> 'b) option \<Rightarrow> ('a list \<times> 'b) option" where
  "append_fst ys r = map_option (\<lambda>(xs, rest). (ys @ xs, rest)) r"

text \<open>The bytes of a code point in UTF-8.\<close>

definition utf8 :: "nat \<Rightarrow> string" where
  "utf8 cp =
     (if cp < 0x80 then [char_of cp]
      else if cp < 0x800 then [char_of (0xC0 + cp div 64), char_of (0x80 + cp mod 64)]
      else if cp < 0x10000 then
        [char_of (0xE0 + cp div 4096), char_of (0x80 + cp div 64 mod 64), char_of (0x80 + cp mod 64)]
      else
        [char_of (0xF0 + cp div 262144), char_of (0x80 + cp div 4096 mod 64),
         char_of (0x80 + cp div 64 mod 64), char_of (0x80 + cp mod 64)])"

text \<open>A \<open>\\u\<close> escape that is a high surrogate, followed by one that is a low surrogate,
  makes one code point with it: the code point of the pair that starts with the surrogate
  \<open>n\<close>, when the six characters of a low surrogate's escape follow.\<close>

definition surrogate_pair :: "nat \<Rightarrow> string \<Rightarrow> nat option" where
  "surrogate_pair n s =
     (if 0xD800 \<le> n \<and> n < 0xDC00 then
        (case s of
           b # u # h1 # h2 # h3 # h4 # _ \<Rightarrow>
             if b = CHR 0x5C \<and> u = CHR ''u'' then
               (case hex4 h1 h2 h3 h4 of
                  None \<Rightarrow> None
                | Some m \<Rightarrow>
                    if 0xDC00 \<le> m \<and> m < 0xE000
                    then Some (0x10000 + (n - 0xD800) * 1024 + (m - 0xDC00))
                    else None)
             else None
         | _ \<Rightarrow> None)
      else None)"

text \<open>The characters of a string literal after its opening quote, up to the closing one.\<close>

fun parse_chars :: "string \<Rightarrow> (string \<times> string) option" where
  "parse_chars [] = None"
| "parse_chars (c # cs) =
     (if c = CHR 0x22 then Some ([], cs)
      else if c = CHR 0x5C then
        (case cs of
           [] \<Rightarrow> None
         | e # r \<Rightarrow>
             if e = CHR ''u'' then
               (case r of
                  h1 # h2 # h3 # h4 # r' \<Rightarrow>
                    (case hex4 h1 h2 h3 h4 of
                       None \<Rightarrow> None
                     | Some n \<Rightarrow>
                         (case surrogate_pair n r' of
                            None \<Rightarrow> append_fst (utf8 n) (parse_chars r')
                          | Some cp \<Rightarrow> append_fst (utf8 cp) (parse_chars (drop 6 r'))))
                | _ \<Rightarrow> None)
             else
               (case unescape e of
                  None \<Rightarrow> None
                | Some x \<Rightarrow> cons_fst x (parse_chars r)))
      else if c < CHR 0x20 then None
      else cons_fst c (parse_chars cs))"

text \<open>The rest of the input after the characters of a literal name.\<close>

fun match_literal :: "string \<Rightarrow> string \<Rightarrow> string option" where
  "match_literal [] s = Some s"
| "match_literal (p # ps) [] = None"
| "match_literal (p # ps) (c # cs) = (if p = c then match_literal ps cs else None)"

text \<open>A repeated name keeps its first place and takes the last value.\<close>

definition add_member :: "string \<Rightarrow> json \<Rightarrow> (string \<times> json) list \<Rightarrow> (string \<times> json) list" where
  "add_member k v ms =
     (k, (case map_of ms k of None \<Rightarrow> v | Some v' \<Rightarrow> v')) # AList.delete k ms"

text \<open>The recursive descent, with fuel for the nesting: \<open>parse_elements\<close> reads the
  elements of an array up to its bracket, \<open>parse_members\<close> the members of an object up
  to its brace. \<open>JSON_parse\<close> gives more fuel than the text has characters, and accepts
  when only white space follows the value.\<close>

fun parse_value :: "nat \<Rightarrow> string \<Rightarrow> (json \<times> string) option"
and parse_elements :: "nat \<Rightarrow> string \<Rightarrow> (json list \<times> string) option"
and parse_members :: "nat \<Rightarrow> string \<Rightarrow> ((string \<times> json) list \<times> string) option"
where
  "parse_value 0 s = None"
| "parse_value (Suc n) s =
     (case skip_ws s of
        [] \<Rightarrow> None
      | c # cs \<Rightarrow>
          if c = CHR ''{'' then
            (case skip_ws cs of
               [] \<Rightarrow> None
             | c' # cs' \<Rightarrow>
                 if c' = CHR ''}'' then Some (JObj [], cs')
                 else map_option (\<lambda>(ms, r). (JObj ms, r)) (parse_members n (c' # cs')))
          else if c = CHR ''['' then
            (case skip_ws cs of
               [] \<Rightarrow> None
             | c' # cs' \<Rightarrow>
                 if c' = CHR '']'' then Some (JArr [], cs')
                 else map_option (\<lambda>(xs, r). (JArr xs, r)) (parse_elements n (c' # cs')))
          else if c = CHR 0x22 then map_option (\<lambda>(str, r). (JStr str, r)) (parse_chars cs)
          else if c = CHR ''t'' then map_option (Pair (JBool True)) (match_literal ''rue'' cs)
          else if c = CHR ''f'' then map_option (Pair (JBool False)) (match_literal ''alse'' cs)
          else if c = CHR ''n'' then map_option (Pair JNull) (match_literal ''ull'' cs)
          else parse_number (c # cs))"
| "parse_elements 0 s = None"
| "parse_elements (Suc n) s =
     (case parse_value n s of
        None \<Rightarrow> None
      | Some (v, r) \<Rightarrow>
          (case skip_ws r of
             [] \<Rightarrow> None
           | c # cs \<Rightarrow>
               if c = CHR '','' then cons_fst v (parse_elements n cs)
               else if c = CHR '']'' then Some ([v], cs)
               else None))"
| "parse_members 0 s = None"
| "parse_members (Suc n) s =
     (case skip_ws s of
        [] \<Rightarrow> None
      | q # cs \<Rightarrow>
          if q \<noteq> CHR 0x22 then None
          else
            (case parse_chars cs of
               None \<Rightarrow> None
             | Some (k, r) \<Rightarrow>
                 (case skip_ws r of
                    [] \<Rightarrow> None
                  | c # r1 \<Rightarrow>
                      if c \<noteq> CHR '':'' then None
                      else
                        (case parse_value n r1 of
                           None \<Rightarrow> None
                         | Some (v, r2) \<Rightarrow>
                             (case skip_ws r2 of
                                [] \<Rightarrow> None
                              | c' # r3 \<Rightarrow>
                                  if c' = CHR '','' then
                                    map_option (\<lambda>(ms, rest). (add_member k v ms, rest))
                                      (parse_members n r3)
                                  else if c' = CHR ''}'' then Some ([(k, v)], r3)
                                  else None)))))"

definition JSON_parse :: "string \<Rightarrow> json option" where
  "JSON_parse s =
     (case parse_value (Suc (length s)) s of
        None \<Rightarrow> None
      | Some (v, r) \<Rightarrow> if skip_ws r = [] then Some v else None)"

section \<open>Persistence service (src/services/dataService.ts)\<close>

text \<open>
  What a call reads from its environment. The clock is read anew at every \<open>new Date()\<close>,
  and a call passes several of them; no two of those that lie on one path of a call share a
  \<open>place\<close>, so each reading is its own:
  \<^item> \<open>In_try\<close>: the \<open>new Date()\<close> of the \<open>try\<close> block of \<open>loadDataFromLocalStorage\<close>
    (in \<open>generateSeedData\<close>, in \<open>createEmptyAppData\<close>, or the stamp after the expiry
    check), and \<open>Save_in_try\<close>: the one of the \<open>saveDataToLocalStorage\<close> that follows;
  \<^item> \<open>In_catch\<close> and \<open>Save_in_catch\<close>: the same for its \<open>catch\<close> block;
  \<^item> \<open>In_import\<close>: the stamp of \<open>importDataFromJson\<close>, and \<open>Save_imported\<close>: the
    \<open>saveDataToLocalStorage\<close> of the hook's \<open>importData\<close>.

  \<open>new_Date env p\<close> is \<open>toISOString()\<close> of the date read at \<open>p\<close>, and
  \<open>shortMonthYear\<close>, \<open>firstOfMonth\<close>, \<open>lastOfMonth\<close> are the three strings that
  \<open>generateSeedData\<close> gets from that date and the local calendar. \<open>generateId env p k\<close>
  is the identifier that the \<open>k\<close>-th call of \<open>generateId()\<close> there returns, \<open>Date_now\<close>
  is the \<open>Date.now()\<close> of the expiry check, \<open>Date_parse\<close> the platform's parser of date
  strings (\<open>None\<close> for \<open>NaN\<close>), \<open>Number_format\<close> its printing of the numbers that are
  no integers below \<open>1e21\<close>.
\<close>

datatype place = In_try | Save_in_try | In_catch | Save_in_catch | In_import | Save_imported

record Env =
  new_Date :: "place \<Rightarrow> string"
  shortMonthYear :: "place \<Rightarrow> string"
  firstOfMonth :: "place \<Rightarrow> string"
  lastOfMonth :: "place \<Rightarrow> string"
  generateId :: "place \<Rightarrow> nat \<Rightarrow> string"
  Date_now :: int
  Date_parse :: "string \<Rightarrow> int option"
  Number_format :: "rat \<Rightarrow> string"

text \<open>\<open>localStorage\<close>, reduced to the slot \<open>budget_app_v1\<close>: \<open>setItem\<close> raises
  when the value is longer than the capacity the environment leaves.\<close>

record Storage =
  item :: "string option"
  quota :: nat

definition getItem :: "Storage \<Rightarrow> string option" where
  "getItem st = item st"

definition setItem :: "string \<Rightarrow> Storage \<Rightarrow> exn + Storage" where
  "setItem v st = (if length v \<le> quota st then Inr (st\<lparr>item := Some v\<rparr>) else Inl QuotaExceededError)"

definition removeItem :: "Storage \<Rightarrow> Storage" where
  "removeItem st = st\<lparr>item := None\<rparr>"

subsection \<open>\<open>new Date(v).getTime()\<close>\<close>

text \<open>The conversion of a value to a string. An object is converted by its \<open>toString\<close>
  method: \<open>[object Object]\<close> from the prototype, but an own property \<open>toString\<close>, which
  in a value read from JSON is no function, hides that method, and the conversion raises a
  \<open>TypeError\<close>. An array joins the strings of its elements with commas, \<open>null\<close> as the
  empty string.\<close>

definition Number_to_string :: "(rat \<Rightarrow> string) \<Rightarrow> number \<Rightarrow> string" where
  "Number_to_string fmt n =
     (case n of Finite q \<Rightarrow> Number_toString fmt q
      | Infinity \<Rightarrow> ''Infinity'' | NegInfinity \<Rightarrow> ''-Infinity'' | NaN \<Rightarrow> ''NaN'')"

fun ToString :: "(rat \<Rightarrow> string) \<Rightarrow> json \<Rightarrow> exn + string"
and Array_join :: "(rat \<Rightarrow> string) \<Rightarrow> json list \<Rightarrow> exn + string"
where
  "ToString fmt JNull = Inr ''null''"
| "ToString fmt (JBool b) = Inr (if b then ''true'' else ''false'')"
| "ToString fmt (JNum n) = Inr (Number_to_string fmt n)"
| "ToString fmt (JStr s) = Inr s"
| "ToString fmt (JArr xs) = Array_join fmt xs"
| "ToString fmt (JObj kvs) =
     (if map_of kvs ''toString'' = None then Inr ''[object Object]'' else Inl TypeError)"
| "Array_join fmt [] = Inr []"
| "Array_join fmt [x] = (if x = JNull then Inr [] else ToString fmt x)"
| "Array_join fmt (x # y # ys) =
     (case (if x = JNull then Inr [] else ToString fmt x) of
        Inl e \<Rightarrow> Inl e
      | Inr s \<Rightarrow>
          (case Array_join fmt (y # ys) of
             Inl e \<Rightarrow> Inl e
           | Inr t \<Rightarrow> Inr (s @ '','' @ t)))"

text \<open>The argument of \<open>new Date\<close>: an object is converted to a string, a string is
  parsed by the platform, anything else is converted to a number: \<open>undefined\<close> to
  \<open>NaN\<close>, \<open>null\<close> to \<open>0\<close>; a number is cut to an integer, and a time value beyond
  8.64e15 ms is \<open>NaN\<close>. The time is \<open>None\<close> for \<open>NaN\<close>.\<close>

fun Date_getTime :: "Env \<Rightarrow> json option \<Rightarrow> exn + int option" where
  "Date_getTime env None = Inr None"
| "Date_getTime env (Some JNull) = Inr (Some 0)"
| "Date_getTime env (Some (JBool b)) = Inr (Some (if b then 1 else 0))"
| "Date_getTime env (Some (JNum (Finite q))) =
     Inr (if \<bar>q\<bar> \<le> 8640000000000000 then Some (if 0 \<le> q then \<lfloor>q\<rfloor> else \<lceil>q\<rceil>) else None)"
| "Date_getTime env (Some (JNum n)) = Inr None"
| "Date_getTime env (Some (JStr s)) = Inr (Date_parse env s)"
| "Date_getTime env (Some v) =
     (case ToString (Number_format env) v of
        Inl e \<Rightarrow> Inl e
      | Inr s \<Rightarrow> Inr (Date_parse env s))"

text \<open>The typed entities as JavaScript objects, the properties in the order of the object
  literals of \<open>createEmptyAppData\<close> and \<open>generateSeedData\<close>, whose results they
  encode. (An object that the hook has built or that was read from a text has its
  properties in an order of its own: the persistence service is stated on objects, not on
  this encoding.)\<close>

definition Period_json :: "Period \<Rightarrow> json" where
  "Period_json p =
     JObj [(''id'', JStr (Period_id p)), (''name'', JStr (Period_name p)),
           (''startDate'', JStr (startDate p)), (''endDate'', JStr (endDate p)),
           (''incomeAmount'', JNum (incomeAmount p))]"

definition Portion_json :: "Portion \<Rightarrow> json" where
  "Portion_json p =
     JObj ([(''id'', JStr (Portion_id p)), (''periodId'', JStr (Portion_periodId p)),
            (''name'', JStr (Portion_name p)), (''budgetAmount'', JNum (budgetAmount p))]
           @ (case Portion_notes p of None \<Rightarrow> [] | Some n \<Rightarrow> [(''notes'', JStr n)]))"

definition Expense_json :: "Expense \<Rightarrow> json" where
  "Expense_json e =
     JObj [(''id'', JStr (Expense_id e)), (''periodId'', JStr (Expense_periodId e)),
           (''portionId'', JStr (portionId e)), (''date'', JStr (date e)),
           (''description'', JStr (description e)), (''amount'', JNum (amount e))]"

definition AppData_json :: "AppData \<Rightarrow> json" where
  "AppData_json d =
     JObj ([(''version'', JStr (version d)), (''createdAt'', JStr (createdAt d)),
            (''lastUsedAt'', JStr (lastUsedAt d)),
            (''periods'', JArr (map Period_json (periods d))),
            (''portions'', JArr (map Portion_json (portions d))),
            (''expenses'', JArr (map Expense_json (expenses d)))]
           @ (case activePeriodId d of None \<Rightarrow> [] | Some a \<Rightarrow> [(''activePeriodId'', JStr a)]))"

definition ONE_YEAR_MS :: int where
  "ONE_YEAR_MS = 365 * 24 * 60 * 60 * 1000"

text \<open>\<open>createEmptyAppData\<close> and \<open>generateSeedData\<close>, called at the place \<open>p\<close>.\<close>

definition createEmptyAppData :: "Env \<Rightarrow> place \<Rightarrow> AppData" where
  "createEmptyAppData env p =
     (let now = new_Date env p
      in \<lparr> version = ''v1'', createdAt = now, lastUsedAt = now,
           periods = [], portions = [], expenses = [], activePeriodId = None \<rparr>)"

text \<open>\<open>s.split('T')[0]\<close>\<close>

definition split_T_0 :: "string \<Rightarrow> string" where
  "split_T_0 s = takeWhile (\<lambda>c. c \<noteq> CHR ''T'') s"

definition generateSeedData :: "Env \<Rightarrow> place \<Rightarrow> AppData" where
  "generateSeedData env p =
     (let periodId = generateId env p 0;
          period = \<lparr> Period_id = periodId, Period_name = shortMonthYear env p,
                     startDate = firstOfMonth env p, endDate = lastOfMonth env p,
                     incomeAmount = Finite 10000000 \<rparr>;
          portions' =
            [ \<lparr> Portion_id = generateId env p 1, Portion_periodId = periodId, Portion_name = ''Food'',
                budgetAmount = Finite 3000000, Portion_notes = Some ''Daily meals and groceries'' \<rparr>,
              \<lparr> Portion_id = generateId env p 2, Portion_periodId = periodId, Portion_name = ''Transport'',
                budgetAmount = Finite 1000000, Portion_notes = Some ''Ojek, fuel, parking'' \<rparr>,
              \<lparr> Portion_id = generateId env p 3, Portion_periodId = periodId, Portion_name = ''Bills'',
                budgetAmount = Finite 2000000, Portion_notes = Some ''Electricity, water, internet'' \<rparr>,
              \<lparr> Portion_id = generateId env p 4, Portion_periodId = periodId, Portion_name = ''Entertainment'',
                budgetAmount = Finite 500000, Portion_notes = Some ''Movies, games, hobbies'' \<rparr>,
              \<lparr> Portion_id = generateId env p 5, Portion_periodId = periodId, Portion_name = ''Savings'',
                budgetAmount = Finite 3500000, Portion_notes = Some ''Emergency fund and investments'' \<rparr> ];
          today = split_T_0 (new_Date env p);
          expenses' =
            [ \<lparr> Expense_id = generateId env p 6, Expense_periodId = periodId,
                portionId = generateId env p 1, date = today,
                description = ''Lunch nasi goreng'', amount = Finite 50000 \<rparr>,
              \<lparr> Expense_id = generateId env p 7, Expense_periodId = periodId,
                portionId = generateId env p 1, date = today,
                description = ''Snack and coffee'', amount = Finite 30000 \<rparr>,
              \<lparr> Expense_id = generateId env p 8, Expense_periodId = periodId,
                portionId = generateId env p 2, date = today,
                description = ''Ojek to office'', amount = Finite 25000 \<rparr> ]
      in \<lparr> version = ''v1'', createdAt = new_Date env p, lastUsedAt = new_Date env p,
           periods = [period], portions = portions', expenses = expenses',
           activePeriodId = Some periodId \<rparr>)"

text \<open>\<open>isDataExpired\<close>: the two times are integers that a double holds exactly, and
  \<open>NaN\<close> compares false.\<close>

definition isDataExpired :: "Env \<Rightarrow> json \<Rightarrow> exn + bool" where
  "isDataExpired env data =
     (case get_prop data ''createdAt'' of
        Inl e \<Rightarrow> Inl e
      | Inr c \<Rightarrow>
          (case Date_getTime env c of
             Inl e \<Rightarrow> Inl e
           | Inr None \<Rightarrow> Inr False
           | Inr (Some createdAt') \<Rightarrow> Inr (Date_now env - createdAt' > ONE_YEAR_MS)))"

text \<open>\<open>saveDataToLocalStorage\<close>, called at the place \<open>p\<close>, stamps the object it is
  given and returns it with the storage; whatever its \<open>try\<close> block raises is replaced by
  the one error.\<close>

definition saveDataToLocalStorage :: "Env \<Rightarrow> place \<Rightarrow> json \<Rightarrow> Storage \<Rightarrow> exn + (json \<times> Storage)" where
  "saveDataToLocalStorage env p data st =
     (case set_prop data ''lastUsedAt'' (JStr (new_Date env p)) of
        Inl _ \<Rightarrow> Inl (Error ''Failed to save data. Storage might be full.'')
      | Inr data' \<Rightarrow>
          (case setItem (JSON_stringify (Number_format env) data') st of
             Inl _ \<Rightarrow> Inl (Error ''Failed to save data. Storage might be full.'')
           | Inr st' \<Rightarrow> Inr (data', st')))"

record LoadResult =
  LoadResult_data :: json
  wasCleared :: bool

text \<open>\<open>saveDataToLocalStorage(d); return { data: d, wasCleared }\<close>\<close>

definition save_and_return ::
  "Env \<Rightarrow> place \<Rightarrow> json \<Rightarrow> bool \<Rightarrow> Storage \<Rightarrow> exn + (LoadResult \<times> Storage)" where
  "save_and_return env p d cleared st =
     (case saveDataToLocalStorage env p d st of
        Inl e \<Rightarrow> Inl e
      | Inr (d', st') \<Rightarrow> Inr (\<lparr> LoadResult_data = d', wasCleared = cleared \<rparr>, st'))"

text \<open>The \<open>try\<close> block of \<open>loadDataFromLocalStorage\<close>; \<open>!stored\<close> holds for
  \<open>null\<close> and for the empty string.\<close>

definition load_try :: "Env \<Rightarrow> Storage \<Rightarrow> exn + (LoadResult \<times> Storage)" where
  "load_try env st =
     (let seed = save_and_return env Save_in_try (AppData_json (generateSeedData env In_try)) False st
      in case getItem st of
           None \<Rightarrow> seed
         | Some stored \<Rightarrow>
             if stored = [] then seed
             else
               (case JSON_parse stored of
                  None \<Rightarrow> Inl SyntaxError
                | Some data \<Rightarrow>
                    (case isDataExpired env data of
                       Inl e \<Rightarrow> Inl e
                     | Inr True \<Rightarrow>
                         save_and_return env Save_in_try
                           (AppData_json (createEmptyAppData env In_try)) True st
                     | Inr False \<Rightarrow>
                         (case set_prop data ''lastUsedAt'' (JStr (new_Date env In_try)) of
                            Inl e \<Rightarrow> Inl e
                          | Inr data' \<Rightarrow> save_and_return env Save_in_try data' False st))))"

text \<open>The \<open>catch\<close> block generates seed data, anew when the \<open>try\<close> block had
  generated them itself and could not save them.\<close>

definition loadDataFromLocalStorage :: "Env \<Rightarrow> Storage \<Rightarrow> exn + (LoadResult \<times> Storage)" where
  "loadDataFromLocalStorage env st =
     (case load_try env st of
        Inr r \<Rightarrow> Inr r
      | Inl _ \<Rightarrow>
          save_and_return env Save_in_catch (AppData_json (generateSeedData env In_catch)) False st)"

definition clearAllData :: "Storage \<Rightarrow> Storage" where
  "clearAllData st = removeItem st"


text \<open>\<open>!data.k\<close>, and \<open>a || b\<close> on such tests: the right operand is evaluated only
  when the left one is false.\<close>

definition falsy_prop :: "json \<Rightarrow> string \<Rightarrow> exn + bool" where
  "falsy_prop data k = (case get_prop data k of Inl e \<Rightarrow> Inl e | Inr v \<Rightarrow> Inr (\<not> truthy v))"

fun or_else :: "exn + bool \<Rightarrow> exn + bool \<Rightarrow> exn + bool" where
  "or_else (Inl e) b = Inl e"
| "or_else (Inr True) b = Inr True"
| "or_else (Inr False) b = b"

text \<open>The \<open>try\<close> block of \<open>importDataFromJson\<close>; its \<open>catch\<close> replaces every
  exception, the block's own \<open>Invalid data structure\<close> too, by the one error.\<close>

definition import_try :: "Env \<Rightarrow> string \<Rightarrow> exn + json" where
  "import_try env jsonString =
     (case JSON_parse jsonString of
        None \<Rightarrow> Inl SyntaxError
      | Some data \<Rightarrow>
          (case or_else (or_else (or_else (falsy_prop data ''version'') (falsy_prop data ''periods''))
                                 (falsy_prop data ''portions''))
                        (falsy_prop data ''expenses'') of
             Inl e \<Rightarrow> Inl e
           | Inr True \<Rightarrow> Inl (Error ''Invalid data structure'')
           | Inr False \<Rightarrow> set_prop data ''lastUsedAt'' (JStr (new_Date env In_import))))"

definition importDataFromJson :: "Env \<Rightarrow> string \<Rightarrow> exn + json" where
  "importDataFromJson env jsonString =
     (case import_try env jsonString of
        Inr d \<Rightarrow> Inr d
      | Inl _ \<Rightarrow> Inl (Error ''Invalid JSON format. Please check your data.''))"

subsection \<open>\<open>importData\<close> of the hook\<close>

text \<open>The callback on the hook's \<open>data\<close> and the storage. It returns the exception it
  ends with, if any, and the state it leaves: \<open>setData\<close> has been called when the save
  raises.\<close>

record Hook =
  hook_data :: "json option"
  storage :: Storage

definition importData :: "Env \<Rightarrow> string \<Rightarrow> Hook \<Rightarrow> exn option \<times> Hook" where
  "importData env jsonString h =
     (case importDataFromJson env jsonString of
        Inl e \<Rightarrow> (Some e, h)
      | Inr importedData \<Rightarrow>
          (case saveDataToLocalStorage env Save_imported importedData (storage h) of
             Inl e \<Rightarrow> (Some e, h\<lparr>hook_data := Some importedData\<rparr>)
           | Inr (d', st') \<Rightarrow> (None, \<lparr> hook_data = Some d', storage = st' \<rparr>)))"

subsection \<open>The shape of a store\<close>

text \<open>The objects of the declared types \<open>Period\<close>, \<open>Portion\<close>, \<open>Expense\<close> and
  \<open>AppData\<close>: every required property is there with a value of its type, an optional
  one is there with such a value or not at all; the properties are in any order.\<close>

definition has_string :: "(string \<times> json) list \<Rightarrow> string \<Rightarrow> bool" where
  "has_string kvs k = (case map_of kvs k of Some (JStr _) \<Rightarrow> True | _ \<Rightarrow> False)"

definition has_number :: "(string \<times> json) list \<Rightarrow> string \<Rightarrow> bool" where
  "has_number kvs k = (case map_of kvs k of Some (JNum _) \<Rightarrow> True | _ \<Rightarrow> False)"

definition may_have_string :: "(string \<times> json) list \<Rightarrow> string \<Rightarrow> bool" where
  "may_have_string kvs k = (case map_of kvs k of None \<Rightarrow> True | Some (JStr _) \<Rightarrow> True | _ \<Rightarrow> False)"

definition has_array :: "(json \<Rightarrow> bool) \<Rightarrow> (string \<times> json) list \<Rightarrow> string \<Rightarrow> bool" where
  "has_array elem kvs k = (case map_of kvs k of Some (JArr xs) \<Rightarrow> list_all elem xs | _ \<Rightarrow> False)"

fun is_Period :: "json \<Rightarrow> bool" where
  "is_Period (JObj kvs) =
     (has_string kvs ''id'' \<and> has_string kvs ''name'' \<and> has_string kvs ''startDate''
      \<and> has_string kvs ''endDate'' \<and> has_number kvs ''incomeAmount'')"
| "is_Period _ = False"

fun is_Portion :: "json \<Rightarrow> bool" where
  "is_Portion (JObj kvs) =
     (has_string kvs ''id'' \<and> has_string kvs ''periodId'' \<and> has_string kvs ''name''
      \<and> has_number kvs ''budgetAmount'' \<and> may_have_string kvs ''notes'')"
| "is_Portion _ = False"

fun is_Expense :: "json \<Rightarrow> bool" where
  "is_Expense (JObj kvs) =
     (has_string kvs ''id'' \<and> has_string kvs ''periodId'' \<and> has_string kvs ''portionId''
      \<and> has_string kvs ''date'' \<and> has_string kvs ''description'' \<and> has_number kvs ''amount'')"
| "is_Expense _ = False"

fun is_AppData :: "json \<Rightarrow> bool" where
  "is_AppData (JObj kvs) =
     (has_string kvs ''version'' \<and> has_string kvs ''createdAt'' \<and> has_string kvs ''lastUsedAt''
      \<and> has_array is_Period kvs ''periods'' \<and> has_array is_Portion kvs ''portions''
      \<and> has_array is_Expense kvs ''expenses'' \<and> may_have_string kvs ''activePeriodId'')"
| "is_AppData _ = False"

section \<open>Sample data\<close>

text \<open>A small store with three periods, used to evaluate the operations on concrete inputs.\<close>

definition mkPeriod :: "string \<Rightarrow> number \<Rightarrow> Period" where
  "mkPeriod i inc = \<lparr> Period_id = i, Period_name = i, startDate = ''2025-11-01'', endDate = ''2025-11-30'', incomeAmount = inc \<rparr>"

definition mkPortion :: "string \<Rightarrow> string \<Rightarrow> number \<Rightarrow> Portion" where
  "mkPortion i per b = \<lparr> Portion_id = i, Portion_periodId = per, Portion_name = i, budgetAmount = b, Portion_notes = None \<rparr>"

definition mkExpense :: "string \<Rightarrow> string \<Rightarrow> string \<Rightarrow> string \<Rightarrow> number \<Rightarrow> Expense" where
  "mkExpense i per por d a = \<lparr> Expense_id = i, Expense_periodId = per, portionId = por, date = d, description = i, amount = a \<rparr>"

definition sample_store :: AppData where
  "sample_store =
     \<lparr> version = ''v1'', createdAt = ''2025-11-01T00:00:00.000Z'', lastUsedAt = ''2025-11-12T00:00:00.000Z'',
       periods = [mkPeriod ''A'' (Finite 10000000), mkPeriod ''B'' (Finite 5000000),
                  mkPeriod ''C'' (Finite 7000000)],
       portions = [mkPortion ''food'' ''A'' (Finite 3000000), mkPortion ''rent'' ''B'' (Finite 2000000),
                   mkPortion ''free'' ''A'' (Finite 0)],
       expenses = [mkExpense ''e1'' ''A'' ''food'' ''2025-11-05'' (Finite 50000),
                   mkExpense ''e2'' ''B'' ''rent'' ''2025-11-10'' (Finite 2000000),
                   mkExpense ''e3'' ''A'' ''food'' ''2025-11-11'' (Finite 30000),
                   mkExpense ''e4'' ''A'' ''free'' ''2025-11-07'' (Finite 25000)],
       activePeriodId = Some ''C'' \<rparr>"

text \<open>An environment: the clock moves on by a millisecond from one reading to the next.\<close>

definition sample_env :: Env where
  "sample_env =
     \<lparr> new_Date = (\<lambda>p. case p of
                      In_try \<Rightarrow> ''2025-11-12T00:00:00.000Z''
                    | Save_in_try \<Rightarrow> ''2025-11-12T00:00:00.001Z''
                    | In_catch \<Rightarrow> ''2025-11-12T00:00:00.002Z''
                    | Save_in_catch \<Rightarrow> ''2025-11-12T00:00:00.003Z''
                    | In_import \<Rightarrow> ''2025-11-12T00:00:00.000Z''
                    | Save_imported \<Rightarrow> ''2025-11-12T00:00:00.001Z''),
       shortMonthYear = (\<lambda>p. ''Nov 2025''),
       firstOfMonth = (\<lambda>p. ''2025-11-01''),
       lastOfMonth = (\<lambda>p. ''2025-11-30''),
       generateId = (\<lambda>p k. ''1762905600000-k3j9x2m'' @ digits (int k)),
       Date_now = 1762905600000,
       Date_parse = (\<lambda>s. if s = ''2024-01-01T00:00:00.000Z'' then Some 1704067200000
                          else if s = ''2025-11-01T00:00:00.000Z'' then Some 1761955200000
                          else None),
       Number_format = (\<lambda>q. if q = 1 / 2 then ''0.5'' else ''1e+21'') \<rparr>"

definition sample_storage :: "string \<Rightarrow> Storage" where
  "sample_storage content = \<lparr> item = Some content, quota = 5000000 \<rparr>"

definition sample_hook :: Hook where
  "sample_hook =
     \<lparr> hook_data = Some (JObj [(''version'', JStr ''v1'')]),
       storage = sample_storage ''{\"version\":\"v1\"}'' \<rparr>"

text \<open>The text of a store that was created on 1 January 2024. Its period was added
  through the hook, which puts the \<open>id\<close> last.\<close>

definition old_store_text :: string where
  "old_store_text = ''{\"version\":\"v1\",\"createdAt\":\"2024-01-01T00:00:00.000Z\",\"lastUsedAt\":\"2024-03-01T00:00:00.000Z\",\"periods\":[{\"name\":\"A\",\"startDate\":\"2024-01-01\",\"endDate\":\"2024-01-31\",\"incomeAmount\":10000000,\"id\":\"A\"}],\"portions\":[{\"periodId\":\"A\",\"name\":\"food\",\"budgetAmount\":3000000,\"id\":\"food\"}],\"expenses\":[{\"periodId\":\"A\",\"portionId\":\"food\",\"date\":\"2024-01-05\",\"description\":\"e1\",\"amount\":50000,\"id\":\"e1\"}],\"activePeriodId\":\"A\"}''"

definition old_store_members :: "(string \<times> json) list" where
  "old_store_members =
          [(''version'', JStr ''v1''), (''createdAt'', JStr ''2024-01-01T00:00:00.000Z''),
           (''lastUsedAt'', JStr ''2024-03-01T00:00:00.000Z''),
           (''periods'', JArr [JObj [(''name'', JStr ''A''), (''startDate'', JStr ''2024-01-01''),
                                     (''endDate'', JStr ''2024-01-31''),
                                     (''incomeAmount'', JNum (Finite 10000000)), (''id'', JStr ''A'')]]),
           (''portions'', JArr [JObj [(''periodId'', JStr ''A''), (''name'', JStr ''food''),
                                      (''budgetAmount'', JNum (Finite 3000000)), (''id'', JStr ''food'')]]),
           (''expenses'', JArr [JObj [(''periodId'', JStr ''A''), (''portionId'', JStr ''food''),
                                      (''date'', JStr ''2024-01-05''), (''description'', JStr ''e1''),
                                      (''amount'', JNum (Finite 50000)), (''id'', JStr ''e1'')]]),
           (''activePeriodId'', JStr ''A'')]"

definition empty_store_text :: string where
  "empty_store_text = ''{\"version\":\"v1\",\"createdAt\":\"2025-11-12T00:00:00.000Z\",\"lastUsedAt\":\"2025-11-12T00:00:00.001Z\",\"periods\":[],\"portions\":[],\"expenses\":[]}''"

text \<open>A value that is an object in JavaScript's sense: not \<open>null\<close> and not a primitive.\<close>

definition is_object :: "json \<Rightarrow> bool" where
  "is_object v = (case v of JObj _ \<Rightarrow> True | JArr _ \<Rightarrow> True | _ \<Rightarrow> False)"

section \<open>Notions for the proofs\<close>




text \<open>The seed data and the empty store made at the place \<open>p\<close>, as the save at the
  place \<open>q\<close> leaves them.\<close>

definition stamped_seed :: "Env \<Rightarrow> place \<Rightarrow> place \<Rightarrow> AppData" where
  "stamped_seed env p q = (generateSeedData env p)\<lparr>lastUsedAt := new_Date env q\<rparr>"

definition stamped_empty :: "Env \<Rightarrow> place \<Rightarrow> place \<Rightarrow> AppData" where
  "stamped_empty env p q = (createEmptyAppData env p)\<lparr>lastUsedAt := new_Date env q\<rparr>"

section \<open>Properties of the numbers\<close>

text \<open>Rounding leaves a whole number of magnitude at most \<open>2 ^ 53\<close> as it is.\<close>

lemma round_half_even_of_int: "round_half_even (of_int k) = k"
  by (simp add: round_half_even_def)

lemma floor_log2_of_int: "0 < n \<Longrightarrow> floor_log2 (of_int n) = bitlen n - 1"
  by (simp add: floor_log2_def)

lemma to_double_pos_int:
  assumes "0 < a" and "a \<le> 2 ^ 53"
  shows "of_int (round_half_even (of_int a / pow2 (max (bitlen a - 1) (- 1022) - 52)))
           * pow2 (max (bitlen a - 1) (- 1022) - 52) = (of_int a :: rat)"
proof -
  define e where "e = bitlen a - 1"
  have b: "2 ^ nat e \<le> a" "a < 2 ^ nat (e + 1)"
    using bitlen_bounds [OF assms(1)] by (simp_all add: e_def)
  have e0: "0 \<le> e"
    using assms(1) bitlen_nonneg [of a] bitlen_eq_zero_iff [of a] by (simp add: e_def)
  have "(2::int) ^ nat e \<le> 2 ^ 53"
    using b(1) assms(2) by simp
  then have "nat e \<le> 53"
    by (rule power_le_imp_le_exp [rotated]) simp
  then have e53: "e \<le> 53"
    by simp
  have m: "max e (- 1022) = e"
    using e0 by simp
  show ?thesis
  proof (cases "e \<le> 52")
    case True
    define k where "k = nat (52 - e)"
    have p: "pow2 (e - 52) = 1 / 2 ^ k"
      using True by (cases "e = 52") (simp_all add: pow2_def k_def)
    have "(of_int a :: rat) / pow2 (e - 52) = of_int (a * 2 ^ k)"
      by (simp add: p)
    then have "round_half_even (of_int a / pow2 (e - 52)) = a * 2 ^ k"
      by (simp only: round_half_even_of_int)
    then show ?thesis
      unfolding e_def [symmetric] m by (simp add: p)
  next
    case False
    with e53 have e: "e = 53" by simp
    with b(1) assms(2) have a: "a = 2 ^ 53" by simp
    have p: "pow2 (e - 52) = 2"
      by (simp add: e pow2_def)
    have "(of_int a :: rat) / 2 = of_int (2 ^ 52)"
      by (simp add: a)
    then have "round_half_even (of_int a / 2) = 2 ^ 52"
      by (simp only: round_half_even_of_int)
    then show ?thesis
      unfolding e_def [symmetric] m p by (simp add: a)
  qed
qed

lemma to_double_of_int:
  assumes "\<bar>n\<bar> \<le> 2 ^ 53"
  shows "to_double (of_int n) = Finite (of_int n)"
proof -
  have small: "\<not> pow2 1024 \<le> (of_int a :: rat)" if "a \<le> 2 ^ 53" for a :: int
  proof -
    have "(of_int a :: rat) \<le> of_int (2 ^ 53)"
      using that by (simp only: of_int_le_iff)
    also have "\<dots> < pow2 1024"
      by (simp add: pow2_def)
    finally show ?thesis by simp
  qed
  consider "n = 0" | "0 < n" | "n < 0" by linarith
  then show ?thesis
  proof cases
    case 1
    then show ?thesis by (simp add: to_double_def)
  next
    case 2
    with assms have a: "0 < n" "n \<le> 2 ^ 53" by simp_all
    from 2 have abs: "\<bar>of_int n :: rat\<bar> = of_int n" by simp
    show ?thesis
      using 2 small [OF a(2)]
      by (simp add: to_double_def Let_def abs floor_log2_of_int [OF a(1)] to_double_pos_int [OF a]
               del: of_int_abs)
  next
    case 3
    with assms have a: "0 < - n" "- n \<le> 2 ^ 53" by simp_all
    from 3 have abs: "\<bar>of_int n :: rat\<bar> = of_int (- n)" by simp
    show ?thesis
      using 3 small [OF a(2)]
      by (simp add: to_double_def Let_def abs floor_log2_of_int [OF a(1)] to_double_pos_int [OF a]
               del: of_int_abs of_int_minus)
  qed
qed


lemma js_add_of_int:
  "\<bar>a + b\<bar> \<le> 2 ^ 53 \<Longrightarrow> js_add (Finite (of_int a)) (Finite (of_int b)) = Finite (of_int (a + b))"
  using to_double_of_int [of "a + b"] by simp

lemma js_sub_of_int:
  "\<bar>a - b\<bar> \<le> 2 ^ 53 \<Longrightarrow> js_sub (Finite (of_int a)) (Finite (of_int b)) = Finite (of_int (a - b))"
  using to_double_of_int [of "a - b"] by (simp add: js_sub_def)

lemma foldl_js_add_of_int:
  "\<bar>c\<bar> + (\<Sum>a\<leftarrow>as. \<bar>a\<bar>) \<le> 2 ^ 53 \<Longrightarrow>
   foldl js_add (Finite (of_int c)) (map (\<lambda>a. Finite (of_int a)) as) = Finite (of_int (c + sum_list as))"
proof (induction as arbitrary: c)
  case Nil
  then show ?case by simp
next
  case (Cons a as)
  have "\<bar>c + a\<bar> \<le> 2 ^ 53"
    using Cons.prems sum_list_abs [of as] by simp
  then have "js_add (Finite (of_int c)) (Finite (of_int a)) = Finite (of_int (c + a))"
    by (rule js_add_of_int)
  moreover have "foldl js_add (Finite (of_int (c + a))) (map (\<lambda>a. Finite (of_int a)) as)
                   = Finite (of_int (c + a + sum_list as))"
    using Cons.prems by (intro Cons.IH) simp
  ultimately show ?case
    by (simp add: add.assoc)
qed

lemma sum_list_abs_bound: "\<bar>sum_list as\<bar> \<le> (\<Sum>a\<leftarrow>as. \<bar>a :: int\<bar>)"
  by (rule sum_list_abs)

lemma sum_list_abs_nonneg: "0 \<le> (\<Sum>a\<leftarrow>as. \<bar>a :: int\<bar>)"
  by (induction as) simp_all

lemma reduce_js_add: "reduce (\<lambda>sum x. js_add sum (f x)) init xs = foldl js_add init (map f xs)"
  unfolding reduce_def by (induction xs arbitrary: init) simp_all

section \<open>Properties of the summary engine\<close>

text \<open>
  C7. For every portion and every expense list, \<open>used\<close> is the sum, as JavaScript adds,
  of the amounts of exactly the expenses that reference the portion, \<open>remaining\<close> is
  budget minus \<open>used\<close>, \<open>isOverBudget\<close> is \<open>used > budget\<close>, and with a budget of
  \<open>0\<close> \<open>percentUsed\<close> is \<open>0\<close>, not \<open>NaN\<close> or an infinity. When the budget \<open>B\<close> and
  those amounts are whole numbers whose magnitudes add up to at most \<open>2 ^ 53\<close>, the sums of
  JavaScript are the sums of the integers: with \<open>U\<close> the sum of the amounts, \<open>used = U\<close>,
  \<open>remaining = B - U\<close> and \<open>isOverBudget = (U > B)\<close>.
\<close>

theorem calculatePortionSummary_correct:
  "(let s = calculatePortionSummary p es;
        mine = filter (\<lambda>e. portionId e = Portion_id p) es
    in used s = foldl js_add (Finite 0) (map amount mine)
       \<and> remaining s = js_sub (budgetAmount p) (used s)
       \<and> isOverBudget s = js_gt (used s) (budgetAmount p)
       \<and> (budgetAmount p = Finite 0 \<longrightarrow> percentUsed s = Finite 0)
       \<and> (\<forall>B as. budgetAmount p = Finite (of_int B)
                  \<and> map amount mine = map (\<lambda>a. Finite (of_int a)) as
                  \<and> \<bar>B\<bar> + (\<Sum>a\<leftarrow>as. \<bar>a\<bar>) \<le> 2 ^ 53
             \<longrightarrow> used s = Finite (of_int (sum_list as))
                 \<and> remaining s = Finite (of_int (B - sum_list as))
                 \<and> isOverBudget s = (sum_list as > B)))"
proof -
  let ?mine = "filter (\<lambda>e. portionId e = Portion_id p) es"
  have u: "used (calculatePortionSummary p es) = foldl js_add (Finite 0) (map amount ?mine)"
    by (simp add: calculatePortionSummary_def Let_def reduce_js_add)
  have exact: "used (calculatePortionSummary p es) = Finite (of_int (sum_list as))
       \<and> remaining (calculatePortionSummary p es) = Finite (of_int (B - sum_list as))
       \<and> isOverBudget (calculatePortionSummary p es) = (sum_list as > B)"
    if b: "budgetAmount p = Finite (of_int B)"
      and m: "map amount ?mine = map (\<lambda>a. Finite (of_int a)) as"
      and le: "\<bar>B\<bar> + (\<Sum>a\<leftarrow>as. \<bar>a\<bar>) \<le> 2 ^ 53" for B as
  proof -
    have "foldl js_add (Finite (of_int 0)) (map (\<lambda>a. Finite (of_int a)) as)
            = Finite (of_int (0 + sum_list as))"
      using le by (intro foldl_js_add_of_int) simp
    then have us: "used (calculatePortionSummary p es) = Finite (of_int (sum_list as))"
      by (simp add: u m)
    have "\<bar>B - sum_list as\<bar> \<le> 2 ^ 53"
      using le sum_list_abs_bound [of as] by simp
    then have "js_sub (Finite (of_int B)) (Finite (of_int (sum_list as))) = Finite (of_int (B - sum_list as))"
      by (rule js_sub_of_int)
    moreover have "remaining (calculatePortionSummary p es)
                     = js_sub (budgetAmount p) (used (calculatePortionSummary p es))"
      by (simp add: calculatePortionSummary_def Let_def)
    moreover have "isOverBudget (calculatePortionSummary p es)
                     = js_gt (used (calculatePortionSummary p es)) (budgetAmount p)"
      by (simp add: calculatePortionSummary_def Let_def)
    ultimately show ?thesis
      by (simp add: us b)
  qed
  show ?thesis
    unfolding Let_def
  proof (intro conjI allI impI)
    show "used (calculatePortionSummary p es) = foldl js_add (Finite 0) (map amount ?mine)"
      by (rule u)
    show "remaining (calculatePortionSummary p es)
            = js_sub (budgetAmount p) (used (calculatePortionSummary p es))"
      by (simp add: calculatePortionSummary_def Let_def)
    show "isOverBudget (calculatePortionSummary p es)
            = js_gt (used (calculatePortionSummary p es)) (budgetAmount p)"
      by (simp add: calculatePortionSummary_def Let_def)
    show "percentUsed (calculatePortionSummary p es) = Finite 0" if "budgetAmount p = Finite 0"
      using that by (simp add: calculatePortionSummary_def Let_def)
  next
    fix B as
    assume h: "budgetAmount p = Finite (of_int B)
                  \<and> map amount ?mine = map (\<lambda>a. Finite (of_int a)) as
                  \<and> \<bar>B\<bar> + (\<Sum>a\<leftarrow>as. \<bar>a\<bar>) \<le> 2 ^ 53"
    from exact [of B as] h
    show "used (calculatePortionSummary p es) = Finite (of_int (sum_list as))"
      and "remaining (calculatePortionSummary p es) = Finite (of_int (B - sum_list as))"
      and "isOverBudget (calculatePortionSummary p es) = (sum_list as > B)"
      by simp_all
  qed
qed

text \<open>The portion \<open>free\<close> of the sample store has a budget of \<open>0\<close> and one expense of
  25000: nothing is divided, though the quotient would be an infinity.\<close>

theorem calculatePortionSummary_correct_witness:
  "budgetAmount (mkPortion ''free'' ''A'' (Finite 0)) = Finite (of_int 0)
   \<and> map amount (filter (\<lambda>e. portionId e = Portion_id (mkPortion ''free'' ''A'' (Finite 0)))
                         (expenses sample_store)) = map (\<lambda>a. Finite (of_int a)) [25000]
   \<and> \<bar>0\<bar> + (\<Sum>a\<leftarrow>[25000::int]. \<bar>a\<bar>) \<le> 2 ^ 53
   \<and> used (calculatePortionSummary (mkPortion ''free'' ''A'' (Finite 0)) (expenses sample_store)) = Finite 25000
   \<and> remaining (calculatePortionSummary (mkPortion ''free'' ''A'' (Finite 0)) (expenses sample_store)) = Finite (- 25000)
   \<and> isOverBudget (calculatePortionSummary (mkPortion ''free'' ''A'' (Finite 0)) (expenses sample_store))
   \<and> percentUsed (calculatePortionSummary (mkPortion ''free'' ''A'' (Finite 0)) (expenses sample_store)) = Finite 0
   \<and> js_mul (js_div (Finite 25000) (Finite 0)) (Finite 100) = Infinity"
proof -
  let ?p = "mkPortion ''free'' ''A'' (Finite 0)"
  let ?s = "calculatePortionSummary ?p (expenses sample_store)"
  have b: "budgetAmount ?p = Finite (of_int 0)"
    by (simp add: mkPortion_def)
  have m: "map amount (filter (\<lambda>e. portionId e = Portion_id ?p) (expenses sample_store))
             = map (\<lambda>a. Finite (of_int a)) [25000]"
    by (simp add: mkPortion_def mkExpense_def sample_store_def)
  have le: "\<bar>0\<bar> + (\<Sum>a\<leftarrow>[25000::int]. \<bar>a\<bar>) \<le> 2 ^ 53"
    by simp
  note t = calculatePortionSummary_correct [of ?p "expenses sample_store", unfolded Let_def]
  note z = t [THEN conjunct2, THEN conjunct2, THEN conjunct2, THEN conjunct1]
  note e = t [THEN conjunct2, THEN conjunct2, THEN conjunct2, THEN conjunct2, rule_format,
              of 0 "[25000]"]
  from e b m le have "used ?s = Finite (of_int (sum_list [25000]))
                 \<and> remaining ?s = Finite (of_int (0 - sum_list [25000]))
                 \<and> isOverBudget ?s = (sum_list [25000] > (0::int))"
    by blast
  moreover from z b have "percentUsed ?s = Finite 0"
    by simp
  moreover have "js_mul (js_div (Finite 25000) (Finite 0)) (Finite 100) = Infinity"
    by (simp add: infinity_def)
  ultimately show ?thesis
    using b m le by simp
qed

text \<open>
  C6. For every period, portion list and expense list: \<open>totalBudgeted\<close> is the sum, as
  JavaScript adds, of the budgets of exactly the portions of the period, \<open>totalExpenses\<close>
  the sum of the amounts of exactly the expenses of the period, whatever portion they name;
  the other fields are the differences of the claim, and with nothing budgeted
  \<open>overallPercentUsed\<close> is \<open>0\<close>, not \<open>NaN\<close> or an infinity. When the income \<open>I\<close>,
  those budgets and those amounts are whole numbers whose magnitudes add up to at most
  \<open>2 ^ 53\<close>, the sums of JavaScript are the sums of the integers.
\<close>

theorem calculatePeriodSummary_correct:
  "(let s = calculatePeriodSummary period ps es;
        budgets = map budgetAmount (filter (\<lambda>p. Portion_periodId p = Period_id period) ps);
        amounts = map amount (filter (\<lambda>e. Expense_periodId e = Period_id period) es)
    in totalIncome s = incomeAmount period
       \<and> totalBudgeted s = foldl js_add (Finite 0) budgets
       \<and> totalExpenses s = foldl js_add (Finite 0) amounts
       \<and> remainingBudget s = js_sub (totalBudgeted s) (totalExpenses s)
       \<and> remainingIncome s = js_sub (totalIncome s) (totalExpenses s)
       \<and> unallocatedIncome s = js_sub (totalIncome s) (totalBudgeted s)
       \<and> PeriodSummary_isOverBudget s = js_gt (totalExpenses s) (totalBudgeted s)
       \<and> (totalBudgeted s = Finite 0 \<longrightarrow> overallPercentUsed s = Finite 0)
       \<and> (\<forall>I bs as. incomeAmount period = Finite (of_int I)
                  \<and> budgets = map (\<lambda>b. Finite (of_int b)) bs
                  \<and> amounts = map (\<lambda>a. Finite (of_int a)) as
                  \<and> \<bar>I\<bar> + (\<Sum>b\<leftarrow>bs. \<bar>b\<bar>) + (\<Sum>a\<leftarrow>as. \<bar>a\<bar>) \<le> 2 ^ 53
             \<longrightarrow> totalBudgeted s = Finite (of_int (sum_list bs))
                 \<and> totalExpenses s = Finite (of_int (sum_list as))
                 \<and> remainingBudget s = Finite (of_int (sum_list bs - sum_list as))
                 \<and> remainingIncome s = Finite (of_int (I - sum_list as))
                 \<and> unallocatedIncome s = Finite (of_int (I - sum_list bs))
                 \<and> PeriodSummary_isOverBudget s = (sum_list as > sum_list bs)))"
proof -
  let ?s = "calculatePeriodSummary period ps es"
  let ?budgets = "map budgetAmount (filter (\<lambda>p. Portion_periodId p = Period_id period) ps)"
  let ?amounts = "map amount (filter (\<lambda>e. Expense_periodId e = Period_id period) es)"
  have i: "totalIncome ?s = incomeAmount period"
    by (simp add: calculatePeriodSummary_def Let_def)
  have tb: "totalBudgeted ?s = foldl js_add (Finite 0) ?budgets"
    by (simp add: calculatePeriodSummary_def Let_def reduce_js_add)
  have te: "totalExpenses ?s = foldl js_add (Finite 0) ?amounts"
    by (simp add: calculatePeriodSummary_def Let_def reduce_js_add)
  have rb: "remainingBudget ?s = js_sub (totalBudgeted ?s) (totalExpenses ?s)"
    by (simp add: calculatePeriodSummary_def Let_def)
  have ri: "remainingIncome ?s = js_sub (totalIncome ?s) (totalExpenses ?s)"
    by (simp add: calculatePeriodSummary_def Let_def)
  have ui: "unallocatedIncome ?s = js_sub (totalIncome ?s) (totalBudgeted ?s)"
    by (simp add: calculatePeriodSummary_def Let_def)
  have ob: "PeriodSummary_isOverBudget ?s = js_gt (totalExpenses ?s) (totalBudgeted ?s)"
    by (simp add: calculatePeriodSummary_def Let_def)
  have z: "overallPercentUsed ?s = Finite 0" if "totalBudgeted ?s = Finite 0"
  proof -
    have "overallPercentUsed ?s =
            (if js_gt (totalBudgeted ?s) (Finite 0)
             then js_mul (js_div (totalExpenses ?s) (totalBudgeted ?s)) (Finite 100)
             else Finite 0)"
      by (simp add: calculatePeriodSummary_def Let_def)
    with that show ?thesis by simp
  qed
  have exact: "totalBudgeted ?s = Finite (of_int (sum_list bs))
                 \<and> totalExpenses ?s = Finite (of_int (sum_list as))
                 \<and> remainingBudget ?s = Finite (of_int (sum_list bs - sum_list as))
                 \<and> remainingIncome ?s = Finite (of_int (I - sum_list as))
                 \<and> unallocatedIncome ?s = Finite (of_int (I - sum_list bs))
                 \<and> PeriodSummary_isOverBudget ?s = (sum_list as > sum_list bs)"
    if inc: "incomeAmount period = Finite (of_int I)"
      and b: "?budgets = map (\<lambda>b. Finite (of_int b)) bs"
      and a: "?amounts = map (\<lambda>a. Finite (of_int a)) as"
      and le: "\<bar>I\<bar> + (\<Sum>b\<leftarrow>bs. \<bar>b\<bar>) + (\<Sum>a\<leftarrow>as. \<bar>a\<bar>) \<le> 2 ^ 53" for I bs as
  proof -
    have nn: "0 \<le> (\<Sum>b\<leftarrow>bs. \<bar>b\<bar>)" "0 \<le> (\<Sum>a\<leftarrow>as. \<bar>a\<bar>)"
      by (rule sum_list_abs_nonneg)+
    have "foldl js_add (Finite (of_int 0)) (map (\<lambda>b. Finite (of_int b)) bs)
            = Finite (of_int (0 + sum_list bs))"
      using le nn by (intro foldl_js_add_of_int) simp
    then have 1: "totalBudgeted ?s = Finite (of_int (sum_list bs))"
      by (simp add: tb b)
    have "foldl js_add (Finite (of_int 0)) (map (\<lambda>a. Finite (of_int a)) as)
            = Finite (of_int (0 + sum_list as))"
      using le nn by (intro foldl_js_add_of_int) simp
    then have 2: "totalExpenses ?s = Finite (of_int (sum_list as))"
      by (simp add: te a)
    have "\<bar>sum_list bs - sum_list as\<bar> \<le> 2 ^ 53"
      using le sum_list_abs_bound [of as] sum_list_abs_bound [of bs] by simp
    then have 3: "remainingBudget ?s = Finite (of_int (sum_list bs - sum_list as))"
      unfolding rb 1 2 by (rule js_sub_of_int)
    have "\<bar>I - sum_list as\<bar> \<le> 2 ^ 53"
      using le nn sum_list_abs_bound [of as] by simp
    then have 4: "remainingIncome ?s = Finite (of_int (I - sum_list as))"
      unfolding ri i inc 2 by (rule js_sub_of_int)
    have "\<bar>I - sum_list bs\<bar> \<le> 2 ^ 53"
      using le nn sum_list_abs_bound [of bs] by simp
    then have 5: "unallocatedIncome ?s = Finite (of_int (I - sum_list bs))"
      unfolding ui i inc 1 by (rule js_sub_of_int)
    have 6: "PeriodSummary_isOverBudget ?s = (sum_list as > sum_list bs)"
      unfolding ob 1 2 by simp
    from 1 2 3 4 5 6 show ?thesis by blast
  qed
  show ?thesis
    unfolding Let_def
  proof (intro conjI allI impI)
    show "totalIncome ?s = incomeAmount period" by (rule i)
    show "totalBudgeted ?s = foldl js_add (Finite 0) ?budgets" by (rule tb)
    show "totalExpenses ?s = foldl js_add (Finite 0) ?amounts" by (rule te)
    show "remainingBudget ?s = js_sub (totalBudgeted ?s) (totalExpenses ?s)" by (rule rb)
    show "remainingIncome ?s = js_sub (totalIncome ?s) (totalExpenses ?s)" by (rule ri)
    show "unallocatedIncome ?s = js_sub (totalIncome ?s) (totalBudgeted ?s)" by (rule ui)
    show "PeriodSummary_isOverBudget ?s = js_gt (totalExpenses ?s) (totalBudgeted ?s)" by (rule ob)
    show "overallPercentUsed ?s = Finite 0" if "totalBudgeted ?s = Finite 0"
      using that by (rule z)
  next
    fix I bs as
    assume h: "incomeAmount period = Finite (of_int I)
                  \<and> ?budgets = map (\<lambda>b. Finite (of_int b)) bs
                  \<and> ?amounts = map (\<lambda>a. Finite (of_int a)) as
                  \<and> \<bar>I\<bar> + (\<Sum>b\<leftarrow>bs. \<bar>b\<bar>) + (\<Sum>a\<leftarrow>as. \<bar>a\<bar>) \<le> 2 ^ 53"
    from exact [of I bs as] h
    show "totalBudgeted ?s = Finite (of_int (sum_list bs))"
      and "totalExpenses ?s = Finite (of_int (sum_list as))"
      and "remainingBudget ?s = Finite (of_int (sum_list bs - sum_list as))"
      and "remainingIncome ?s = Finite (of_int (I - sum_list as))"
      and "unallocatedIncome ?s = Finite (of_int (I - sum_list bs))"
      and "PeriodSummary_isOverBudget ?s = (sum_list as > sum_list bs)"
      by simp_all
  qed
qed

text \<open>The period \<open>C\<close> of the sample store has no portion; an expense of 5000 is booked
  on it, for a portion that does not exist. Nothing is budgeted, the expense counts, and
  nothing is divided.\<close>

theorem calculatePeriodSummary_correct_witness:
  "incomeAmount (mkPeriod ''C'' (Finite 7000000)) = Finite (of_int 7000000)
   \<and> map budgetAmount (filter (\<lambda>p. Portion_periodId p = Period_id (mkPeriod ''C'' (Finite 7000000)))
                               (portions sample_store)) = map (\<lambda>b. Finite (of_int b)) []
   \<and> map amount (filter (\<lambda>e. Expense_periodId e = Period_id (mkPeriod ''C'' (Finite 7000000)))
                         (expenses sample_store @ [mkExpense ''e5'' ''C'' ''ghost'' ''2025-11-08'' (Finite 5000)]))
       = map (\<lambda>a. Finite (of_int a)) [5000]
   \<and> \<bar>7000000\<bar> + (\<Sum>b\<leftarrow>[]. \<bar>b\<bar>) + (\<Sum>a\<leftarrow>[5000::int]. \<bar>a\<bar>) \<le> 2 ^ 53
   \<and> totalBudgeted (calculatePeriodSummary (mkPeriod ''C'' (Finite 7000000)) (portions sample_store)
        (expenses sample_store @ [mkExpense ''e5'' ''C'' ''ghost'' ''2025-11-08'' (Finite 5000)])) = Finite 0
   \<and> totalExpenses (calculatePeriodSummary (mkPeriod ''C'' (Finite 7000000)) (portions sample_store)
        (expenses sample_store @ [mkExpense ''e5'' ''C'' ''ghost'' ''2025-11-08'' (Finite 5000)])) = Finite 5000
   \<and> remainingBudget (calculatePeriodSummary (mkPeriod ''C'' (Finite 7000000)) (portions sample_store)
        (expenses sample_store @ [mkExpense ''e5'' ''C'' ''ghost'' ''2025-11-08'' (Finite 5000)])) = Finite (- 5000)
   \<and> remainingIncome (calculatePeriodSummary (mkPeriod ''C'' (Finite 7000000)) (portions sample_store)
        (expenses sample_store @ [mkExpense ''e5'' ''C'' ''ghost'' ''2025-11-08'' (Finite 5000)])) = Finite 6995000
   \<and> unallocatedIncome (calculatePeriodSummary (mkPeriod ''C'' (Finite 7000000)) (portions sample_store)
        (expenses sample_store @ [mkExpense ''e5'' ''C'' ''ghost'' ''2025-11-08'' (Finite 5000)])) = Finite 7000000
   \<and> PeriodSummary_isOverBudget (calculatePeriodSummary (mkPeriod ''C'' (Finite 7000000)) (portions sample_store)
        (expenses sample_store @ [mkExpense ''e5'' ''C'' ''ghost'' ''2025-11-08'' (Finite 5000)]))
   \<and> overallPercentUsed (calculatePeriodSummary (mkPeriod ''C'' (Finite 7000000)) (portions sample_store)
        (expenses sample_store @ [mkExpense ''e5'' ''C'' ''ghost'' ''2025-11-08'' (Finite 5000)])) = Finite 0
   \<and> js_mul (js_div (Finite 5000) (Finite 0)) (Finite 100) = Infinity"
proof -
  let ?p = "mkPeriod ''C'' (Finite 7000000)"
  let ?es = "expenses sample_store @ [mkExpense ''e5'' ''C'' ''ghost'' ''2025-11-08'' (Finite 5000)]"
  let ?s = "calculatePeriodSummary ?p (portions sample_store) ?es"
  have i: "incomeAmount ?p = Finite (of_int 7000000)"
    by (simp add: mkPeriod_def)
  have b: "map budgetAmount (filter (\<lambda>p. Portion_periodId p = Period_id ?p) (portions sample_store))
             = map (\<lambda>b. Finite (of_int b)) []"
    by (simp add: mkPeriod_def mkPortion_def sample_store_def)
  have a: "map amount (filter (\<lambda>e. Expense_periodId e = Period_id ?p) ?es)
             = map (\<lambda>a. Finite (of_int a)) [5000]"
    by (simp add: mkPeriod_def mkExpense_def sample_store_def)
  have le: "\<bar>7000000\<bar> + (\<Sum>b\<leftarrow>[]. \<bar>b\<bar>) + (\<Sum>a\<leftarrow>[5000::int]. \<bar>a\<bar>) \<le> 2 ^ 53"
    by simp
  note t = calculatePeriodSummary_correct [of ?p "portions sample_store" ?es, unfolded Let_def]
  note z = t [THEN conjunct2, THEN conjunct2, THEN conjunct2, THEN conjunct2, THEN conjunct2,
              THEN conjunct2, THEN conjunct2, THEN conjunct1]
  note e = t [THEN conjunct2, THEN conjunct2, THEN conjunct2, THEN conjunct2, THEN conjunct2,
              THEN conjunct2, THEN conjunct2, THEN conjunct2, rule_format, of 7000000 "[]" "[5000]"]
  from e i b a le have r: "totalBudgeted ?s = Finite (of_int (sum_list []))
                 \<and> totalExpenses ?s = Finite (of_int (sum_list [5000]))
                 \<and> remainingBudget ?s = Finite (of_int (sum_list [] - sum_list [5000]))
                 \<and> remainingIncome ?s = Finite (of_int (7000000 - sum_list [5000]))
                 \<and> unallocatedIncome ?s = Finite (of_int (7000000 - sum_list []))
                 \<and> PeriodSummary_isOverBudget ?s = (sum_list [5000] > (sum_list [] :: int))"
    by blast
  then have "totalBudgeted ?s = Finite 0" by simp
  with z have "overallPercentUsed ?s = Finite 0" by blast
  moreover have "js_mul (js_div (Finite 5000) (Finite 0)) (Finite 100) = Infinity"
    by (simp add: infinity_def)
  ultimately show ?thesis
    using r i b a le by simp
qed

section \<open>Properties of the facade\<close>

text \<open>
  C2, as the code has it. Deleting a period removes it with its portions and expenses and
  leaves the entities of every other period as they were, in their order; the active
  period then is the first remaining period, or unset when none remains, whether or not
  the deleted period was the active one.
\<close>

theorem deletePeriod_resets_active:
  "\<exists>d'. deletePeriod pid (Some d) = Some d'
     \<and> periods d' = filter (\<lambda>p. Period_id p \<noteq> pid) (periods d)
     \<and> portions d' = filter (\<lambda>p. Portion_periodId p \<noteq> pid) (portions d)
     \<and> expenses d' = filter (\<lambda>e. Expense_periodId e \<noteq> pid) (expenses d)
     \<and> (\<forall>q. q \<noteq> pid \<longrightarrow>
           filter (\<lambda>p. Period_id p = q) (periods d') = filter (\<lambda>p. Period_id p = q) (periods d)
         \<and> filter (\<lambda>p. Portion_periodId p = q) (portions d') = filter (\<lambda>p. Portion_periodId p = q) (portions d)
         \<and> filter (\<lambda>e. Expense_periodId e = q) (expenses d') = filter (\<lambda>e. Expense_periodId e = q) (expenses d))
     \<and> activePeriodId d' = (case periods d' of [] \<Rightarrow> None | p # _ \<Rightarrow> Some (Period_id p))"
  by (auto simp: deletePeriod_def Let_def intro: filter_cong)

theorem deletePeriod_resets_active_witness:
  "''A'' \<noteq> ''B'' \<and>
   map_option (map Portion_id \<circ> portions) (deletePeriod ''B'' (Some sample_store)) = Some [''food'', ''free'']
   \<and> map_option (map Expense_id \<circ> expenses) (deletePeriod ''B'' (Some sample_store)) = Some [''e1'', ''e3'', ''e4'']
   \<and> map_option (map Period_id \<circ> periods) (deletePeriod ''B'' (Some sample_store)) = Some [''A'', ''C'']
   \<and> map_option activePeriodId (deletePeriod ''B'' (Some sample_store)) = Some (Some ''A'')"
  using deletePeriod_resets_active [of "''B''" sample_store]
  by (auto simp: sample_store_def mkPeriod_def mkPortion_def mkExpense_def)

text \<open>The active period \<open>C\<close> is lost when the period \<open>B\<close> is deleted.\<close>

theorem deletePeriod_counterexample:
  "activePeriodId sample_store = Some ''C'' \<and> ''B'' \<noteq> ''C''
   \<and> map_option activePeriodId (deletePeriod ''B'' (Some sample_store)) = Some (Some ''A'')"
  by (simp add: deletePeriod_def sample_store_def mkPeriod_def Let_def)










text \<open>
  C10. None of the ten mutation callbacks changes \<open>version\<close> or \<open>createdAt\<close>.
\<close>

theorem mutations_keep_version_createdAt:
  "map_option version (setActivePeriod pid prev) = map_option version prev \<and>
   map_option createdAt (setActivePeriod pid prev) = map_option createdAt prev \<and>
   map_option version (addPeriod newId period prev) = map_option version prev \<and>
   map_option createdAt (addPeriod newId period prev) = map_option createdAt prev \<and>
   map_option version (updatePeriod pid pu prev) = map_option version prev \<and>
   map_option createdAt (updatePeriod pid pu prev) = map_option createdAt prev \<and>
   map_option version (deletePeriod pid prev) = map_option version prev \<and>
   map_option createdAt (deletePeriod pid prev) = map_option createdAt prev \<and>
   map_option version (addPortion newId po prev) = map_option version prev \<and>
   map_option createdAt (addPortion newId po prev) = map_option createdAt prev \<and>
   map_option version (updatePortion poid pou prev) = map_option version prev \<and>
   map_option createdAt (updatePortion poid pou prev) = map_option createdAt prev \<and>
   map_option version (deletePortion poid prev) = map_option version prev \<and>
   map_option createdAt (deletePortion poid prev) = map_option createdAt prev \<and>
   map_option version (addExpense newId e prev) = map_option version prev \<and>
   map_option createdAt (addExpense newId e prev) = map_option createdAt prev \<and>
   map_option version (updateExpense eid eu prev) = map_option version prev \<and>
   map_option createdAt (updateExpense eid eu prev) = map_option createdAt prev \<and>
   map_option version (deleteExpense eid prev) = map_option version prev \<and>
   map_option createdAt (deleteExpense eid prev) = map_option createdAt prev"
  by (cases prev)
     (simp_all add: setActivePeriod_def addPeriod_def updatePeriod_def deletePeriod_def
        addPortion_def updatePortion_def deletePortion_def
        addExpense_def updateExpense_def deleteExpense_def Let_def)

section \<open>Properties of the persistence service\<close>

lemma set_prop_AppData_json:
  "set_prop (AppData_json d) ''lastUsedAt'' (JStr t) = Inr (AppData_json (d\<lparr>lastUsedAt := t\<rparr>))"
  by (simp add: AppData_json_def)

lemma JSON_parse_Nil: "JSON_parse [] = None"
  by (simp add: JSON_parse_def)

lemma save_and_return_AppData:
  "length (JSON_stringify (Number_format env) (AppData_json (d\<lparr>lastUsedAt := new_Date env p\<rparr>))) \<le> quota st \<Longrightarrow>
   save_and_return env p (AppData_json d) c st =
     Inr (\<lparr>LoadResult_data = AppData_json (d\<lparr>lastUsedAt := new_Date env p\<rparr>), wasCleared = c\<rparr>,
          st\<lparr>item := Some (JSON_stringify (Number_format env) (AppData_json (d\<lparr>lastUsedAt := new_Date env p\<rparr>)))\<rparr>)"
  by (simp add: save_and_return_def saveDataToLocalStorage_def set_prop_AppData_json setItem_def)

lemma parse_old_store_text: "JSON_parse old_store_text = Some (JObj old_store_members)"
  by code_simp

lemma stringify_empty_store:
  "JSON_stringify (Number_format sample_env) (AppData_json (stamped_empty sample_env In_try Save_in_try))
     = empty_store_text"
  by code_simp

lemma empty_store_fits: "length empty_store_text \<le> 5000000"
  by (simp add: empty_store_text_def)

text \<open>
  C3. When the slot holds the text of an object whose \<open>createdAt\<close> is a date string that
  lies more than 365 days before the clock's reading, and the storage takes the write, load
  answers with the empty store (no periods, portions or expenses, no active period) and
  \<open>wasCleared = true\<close>, and the slot holds that empty store.
\<close>

theorem load_expired:
  assumes "getItem st = Some stored"
      and "JSON_parse stored = Some (JObj kvs)"
      and "map_of kvs ''createdAt'' = Some (JStr c)"
      and "Date_parse env c = Some t"
      and "Date_now env - t > 365 * 24 * 60 * 60 * 1000"
      and "length (JSON_stringify (Number_format env) (AppData_json (stamped_empty env In_try Save_in_try)))
             \<le> quota st"
  shows "loadDataFromLocalStorage env st =
           Inr (\<lparr>LoadResult_data = AppData_json (stamped_empty env In_try Save_in_try), wasCleared = True\<rparr>,
                st\<lparr>item := Some (JSON_stringify (Number_format env)
                                    (AppData_json (stamped_empty env In_try Save_in_try)))\<rparr>)
         \<and> periods (stamped_empty env In_try Save_in_try) = []
         \<and> portions (stamped_empty env In_try Save_in_try) = []
         \<and> expenses (stamped_empty env In_try Save_in_try) = []
         \<and> activePeriodId (stamped_empty env In_try Save_in_try) = None"
proof -
  have ne: "stored \<noteq> []"
    using assms(2) JSON_parse_Nil by auto
  have exp: "isDataExpired env (JObj kvs) = Inr True"
    using assms(3,4,5) by (simp add: isDataExpired_def ONE_YEAR_MS_def)
  have sv: "save_and_return env Save_in_try (AppData_json (createEmptyAppData env In_try)) True st =
     Inr (\<lparr>LoadResult_data = AppData_json (stamped_empty env In_try Save_in_try), wasCleared = True\<rparr>,
          st\<lparr>item := Some (JSON_stringify (Number_format env)
                              (AppData_json (stamped_empty env In_try Save_in_try)))\<rparr>)"
    using assms(6) unfolding stamped_empty_def by (rule save_and_return_AppData)
  have "load_try env st =
     Inr (\<lparr>LoadResult_data = AppData_json (stamped_empty env In_try Save_in_try), wasCleared = True\<rparr>,
          st\<lparr>item := Some (JSON_stringify (Number_format env)
                              (AppData_json (stamped_empty env In_try Save_in_try)))\<rparr>)"
    using assms(1,2) ne exp sv by (simp add: load_try_def Let_def)
  then show ?thesis
    by (simp add: loadDataFromLocalStorage_def stamped_empty_def createEmptyAppData_def Let_def)
qed

text \<open>The store of January 2024, loaded in November 2025.\<close>

theorem load_expired_witness:
  "getItem (sample_storage old_store_text) = Some old_store_text
   \<and> JSON_parse old_store_text = Some (JObj old_store_members)
   \<and> map_of old_store_members ''createdAt'' = Some (JStr ''2024-01-01T00:00:00.000Z'')
   \<and> Date_parse sample_env ''2024-01-01T00:00:00.000Z'' = Some 1704067200000
   \<and> Date_now sample_env - 1704067200000 > 365 * 24 * 60 * 60 * 1000
   \<and> loadDataFromLocalStorage sample_env (sample_storage old_store_text) =
       Inr (\<lparr>LoadResult_data = AppData_json (stamped_empty sample_env In_try Save_in_try), wasCleared = True\<rparr>,
            sample_storage empty_store_text)"
  using load_expired [of "sample_storage old_store_text" old_store_text old_store_members
                         "''2024-01-01T00:00:00.000Z''" sample_env 1704067200000]
  by (simp add: parse_old_store_text stringify_empty_store empty_store_fits getItem_def sample_storage_def)
     (simp add: sample_env_def old_store_members_def)

lemma load_try_not_object:
  assumes "getItem st = Some stored" and "stored \<noteq> []"
      and "case JSON_parse stored of None \<Rightarrow> True | Some v \<Rightarrow> \<not> is_object v"
  shows "\<exists>e. load_try env st = Inl e"
proof (cases "JSON_parse stored")
  case None
  with assms show ?thesis by (simp add: load_try_def Let_def)
next
  case (Some v)
  with assms(3) have "\<not> is_object v" by simp
  then show ?thesis
    using assms(1,2) Some
    by (cases v) (simp_all add: load_try_def Let_def is_object_def isDataExpired_def)
qed

lemma parse_garbage: "JSON_parse ''{oops'' = None"
  by code_simp

lemma seed_fits:
  "length (JSON_stringify (Number_format sample_env)
             (AppData_json (stamped_seed sample_env In_catch Save_in_catch))) \<le> 5000000"
  by (simp add: JSON_stringify_def AppData_json_def stamped_seed_def generateSeedData_def sample_env_def
     Let_def Period_json_def Portion_json_def Expense_json_def QuoteJSONString_def quote_char_def
     Number_toString_def digit_char_def newline_indent_def colon_def split_T_0_def)

text \<open>
  C1, as the code has it. A content that is no JSON text, or the text of \<open>null\<close>, a
  number, a string or a boolean, makes load answer with fresh seed data (one period, five
  portions, three expenses) and \<open>wasCleared = false\<close>, and the slot holds the seed data,
  when the storage takes the write. (The seed data are made in the \<open>catch\<close> block; for
  the empty text, which counts as no content, in the \<open>try\<close> block.)
\<close>

theorem load_corrupt:
  assumes "getItem st = Some stored"
      and "case JSON_parse stored of None \<Rightarrow> True | Some v \<Rightarrow> \<not> is_object v"
      and "seed = (if stored = [] then stamped_seed env In_try Save_in_try
                   else stamped_seed env In_catch Save_in_catch)"
      and "length (JSON_stringify (Number_format env) (AppData_json seed)) \<le> quota st"
  shows "loadDataFromLocalStorage env st =
           Inr (\<lparr>LoadResult_data = AppData_json seed, wasCleared = False\<rparr>,
                st\<lparr>item := Some (JSON_stringify (Number_format env) (AppData_json seed))\<rparr>)
         \<and> length (periods seed) = 1
         \<and> length (portions seed) = 5
         \<and> length (expenses seed) = 3"
proof -
  have sv: "save_and_return env q (AppData_json (generateSeedData env p)) False st =
     Inr (\<lparr>LoadResult_data = AppData_json (stamped_seed env p q), wasCleared = False\<rparr>,
          st\<lparr>item := Some (JSON_stringify (Number_format env) (AppData_json (stamped_seed env p q)))\<rparr>)"
    if "length (JSON_stringify (Number_format env) (AppData_json (stamped_seed env p q))) \<le> quota st"
    for p q
    using that unfolding stamped_seed_def by (rule save_and_return_AppData)
  have "loadDataFromLocalStorage env st =
     Inr (\<lparr>LoadResult_data = AppData_json seed, wasCleared = False\<rparr>,
          st\<lparr>item := Some (JSON_stringify (Number_format env) (AppData_json seed))\<rparr>)"
  proof (cases "stored = []")
    case True
    with assms(3,4) have "length (JSON_stringify (Number_format env)
        (AppData_json (stamped_seed env In_try Save_in_try))) \<le> quota st"
      by simp
    from sv [OF this] True assms(1,3) show ?thesis
      by (simp add: loadDataFromLocalStorage_def load_try_def Let_def)
  next
    case False
    with load_try_not_object [OF assms(1) _ assms(2)] obtain e where e: "load_try env st = Inl e"
      by blast
    from False assms(3,4) have "length (JSON_stringify (Number_format env)
        (AppData_json (stamped_seed env In_catch Save_in_catch))) \<le> quota st"
      by simp
    from sv [OF this] e False assms(3) show ?thesis
      by (simp add: loadDataFromLocalStorage_def)
  qed
  then show ?thesis
    using assms(3) by (simp add: stamped_seed_def generateSeedData_def Let_def)
qed

theorem load_corrupt_witness:
  "getItem (sample_storage ''{oops'') = Some ''{oops''
   \<and> JSON_parse ''{oops'' = None
   \<and> loadDataFromLocalStorage sample_env (sample_storage ''{oops'') =
       Inr (\<lparr>LoadResult_data = AppData_json (stamped_seed sample_env In_catch Save_in_catch),
              wasCleared = False\<rparr>,
            sample_storage (JSON_stringify (Number_format sample_env)
                              (AppData_json (stamped_seed sample_env In_catch Save_in_catch))))
   \<and> length (periods (stamped_seed sample_env In_catch Save_in_catch)) = 1
   \<and> length (portions (stamped_seed sample_env In_catch Save_in_catch)) = 5
   \<and> length (expenses (stamped_seed sample_env In_catch Save_in_catch)) = 3"
  using load_corrupt [of "sample_storage ''{oops''" "''{oops''"
                         "stamped_seed sample_env In_catch Save_in_catch" sample_env]
  by (simp add: parse_garbage seed_fits getItem_def sample_storage_def)

lemma parse_v1: "JSON_parse ''{\"version\":\"v1\"}'' = Some (JObj [(''version'', JStr ''v1'')])"
  by code_simp

lemma stringify_v1:
  "JSON_stringify fmt (JObj [(''version'', JStr ''v1''), (''lastUsedAt'', JStr ''2025-11-12T00:00:00.001Z'')])
     = ''{\"version\":\"v1\",\"lastUsedAt\":\"2025-11-12T00:00:00.001Z\"}''"
  by code_simp

text \<open>The slot holds the text of an object that has none of the three collections: load
  answers with that object, stamped, and not with seed data.\<close>

theorem load_corrupt_counterexample:
  "getItem (sample_storage ''{\"version\":\"v1\"}'') = Some ''{\"version\":\"v1\"}''
   \<and> JSON_parse ''{\"version\":\"v1\"}'' = Some (JObj [(''version'', JStr ''v1'')])
   \<and> loadDataFromLocalStorage sample_env (sample_storage ''{\"version\":\"v1\"}'') =
       Inr (\<lparr>LoadResult_data = JObj [(''version'', JStr ''v1''),
                                      (''lastUsedAt'', JStr ''2025-11-12T00:00:00.001Z'')],
              wasCleared = False\<rparr>,
            sample_storage ''{\"version\":\"v1\",\"lastUsedAt\":\"2025-11-12T00:00:00.001Z\"}'')"
  by (simp add: loadDataFromLocalStorage_def load_try_def Let_def getItem_def sample_storage_def
        parse_v1 isDataExpired_def save_and_return_def saveDataToLocalStorage_def setItem_def
        stringify_v1 sample_env_def)

lemma or_else_Inr: "or_else (Inr a) (Inr b) = Inr (a \<or> b)"
  by (cases a) simp_all

lemma import_try_object:
  "JSON_parse text = Some (JObj kvs) \<Longrightarrow>
   import_try env text =
     (if truthy (map_of kvs ''version'') \<and> truthy (map_of kvs ''periods'')
         \<and> truthy (map_of kvs ''portions'') \<and> truthy (map_of kvs ''expenses'')
      then Inr (JObj (AList.update ''lastUsedAt'' (JStr (new_Date env In_import)) kvs))
      else Inl (Error ''Invalid data structure''))"
  by (simp add: import_try_def falsy_prop_def or_else_Inr)

lemma import_try_no_object:
  "JSON_parse text = Some v \<Longrightarrow> (\<forall>kvs. v \<noteq> JObj kvs) \<Longrightarrow> \<exists>e. import_try env text = Inl e"
  by (cases v) (simp_all add: import_try_def falsy_prop_def or_else_Inr)

lemma import_try_unparsable:
  "JSON_parse text = None \<Longrightarrow> import_try env text = Inl SyntaxError"
  by (simp add: import_try_def)

lemma parse_no_expenses:
  "JSON_parse ''{\"version\":\"v1\",\"periods\":[],\"portions\":[]}''
     = Some (JObj [(''version'', JStr ''v1''), (''periods'', JArr []), (''portions'', JArr [])])"
  by code_simp

text \<open>
  C5, as the code has it. The import succeeds exactly when the text parses to an object
  whose \<open>version\<close>, \<open>periods\<close>, \<open>portions\<close> and \<open>expenses\<close> are truthy, and
  then answers with the object, stamped; in every other case (a text that does not parse,
  a value that is no such object, a field that is absent or falsy) it fails with the one
  error and its message, and \<open>importData\<close> leaves the hook's state as it was.
\<close>

theorem importDataFromJson_fails_iff:
  "importDataFromJson env text =
     (case JSON_parse text of
        Some (JObj kvs) \<Rightarrow>
          if truthy (map_of kvs ''version'') \<and> truthy (map_of kvs ''periods'')
             \<and> truthy (map_of kvs ''portions'') \<and> truthy (map_of kvs ''expenses'')
          then Inr (JObj (AList.update ''lastUsedAt'' (JStr (new_Date env In_import)) kvs))
          else Inl (Error ''Invalid JSON format. Please check your data.'')
      | _ \<Rightarrow> Inl (Error ''Invalid JSON format. Please check your data.''))
   \<and> (\<forall>e. importDataFromJson env text = Inl e \<longrightarrow> importData env text h = (Some e, h))"
proof
  show "importDataFromJson env text =
     (case JSON_parse text of
        Some (JObj kvs) \<Rightarrow>
          if truthy (map_of kvs ''version'') \<and> truthy (map_of kvs ''periods'')
             \<and> truthy (map_of kvs ''portions'') \<and> truthy (map_of kvs ''expenses'')
          then Inr (JObj (AList.update ''lastUsedAt'' (JStr (new_Date env In_import)) kvs))
          else Inl (Error ''Invalid JSON format. Please check your data.'')
      | _ \<Rightarrow> Inl (Error ''Invalid JSON format. Please check your data.''))"
  proof (cases "JSON_parse text")
    case None
    then show ?thesis
      by (simp add: importDataFromJson_def import_try_unparsable)
  next
    case (Some v)
    show ?thesis
    proof (cases "\<exists>kvs. v = JObj kvs")
      case True
      then obtain kvs where v: "v = JObj kvs" by blast
      with Some show ?thesis
        by (simp add: importDataFromJson_def import_try_object)
    next
      case False
      with import_try_no_object [OF Some, of env] obtain e where "import_try env text = Inl e"
        by blast
      with Some False show ?thesis
        by (cases v) (simp_all add: importDataFromJson_def)
    qed
  qed
  show "\<forall>e. importDataFromJson env text = Inl e \<longrightarrow> importData env text h = (Some e, h)"
    by (simp add: importData_def)
qed

theorem importDataFromJson_fails_iff_witness:
  "importDataFromJson sample_env ''{\"version\":\"v1\",\"periods\":[],\"portions\":[]}''
     = Inl (Error ''Invalid JSON format. Please check your data.'')
   \<and> importData sample_env ''{\"version\":\"v1\",\"periods\":[],\"portions\":[]}'' sample_hook
     = (Some (Error ''Invalid JSON format. Please check your data.''), sample_hook)"
  using importDataFromJson_fails_iff
          [of sample_env "''{\"version\":\"v1\",\"periods\":[],\"portions\":[]}''" sample_hook]
  by (simp add: parse_no_expenses)

lemma parse_empty_version:
  "JSON_parse ''{\"version\":\"\",\"periods\":[],\"portions\":[],\"expenses\":[]}''
     = Some (JObj [(''version'', JStr ''''), (''periods'', JArr []),
                   (''portions'', JArr []), (''expenses'', JArr [])])"
  by code_simp

text \<open>All four fields are there, and the import fails: \<open>version\<close> is the empty string.\<close>

theorem importDataFromJson_counterexample:
  "JSON_parse ''{\"version\":\"\",\"periods\":[],\"portions\":[],\"expenses\":[]}''
     = Some (JObj [(''version'', JStr ''''), (''periods'', JArr []),
                   (''portions'', JArr []), (''expenses'', JArr [])])
   \<and> importDataFromJson sample_env ''{\"version\":\"\",\"periods\":[],\"portions\":[],\"expenses\":[]}''
     = Inl (Error ''Invalid JSON format. Please check your data.'')"
  by (simp add: parse_empty_version importDataFromJson_def import_try_def falsy_prop_def or_else_Inr)

text \<open>
  C9. A text that parses to an object in which one of the four fields is there with a
  falsy value (\<open>null\<close>, \<open>false\<close>, \<open>0\<close>, the empty string) is rejected with the
  error.
\<close>

theorem importDataFromJson_truthiness:
  assumes "JSON_parse text = Some (JObj kvs)"
      and "k \<in> {''version'', ''periods'', ''portions'', ''expenses''}"
      and "map_of kvs k = Some v"
      and "\<not> truthy (Some v)"
  shows "importDataFromJson env text = Inl (Error ''Invalid JSON format. Please check your data.'')"
  using assms by (auto simp: importDataFromJson_def import_try_object)

lemma parse_null_periods:
  "JSON_parse ''{\"version\":\"v1\",\"periods\":null,\"portions\":0,\"expenses\":[]}''
     = Some (JObj [(''version'', JStr ''v1''), (''periods'', JNull),
                   (''portions'', JNum (Finite 0)), (''expenses'', JArr [])])"
  by code_simp

theorem importDataFromJson_truthiness_witness:
  "JSON_parse ''{\"version\":\"v1\",\"periods\":null,\"portions\":0,\"expenses\":[]}''
     = Some (JObj [(''version'', JStr ''v1''), (''periods'', JNull),
                   (''portions'', JNum (Finite 0)), (''expenses'', JArr [])])
   \<and> \<not> truthy (Some JNull)
   \<and> importDataFromJson sample_env ''{\"version\":\"v1\",\"periods\":null,\"portions\":0,\"expenses\":[]}''
     = Inl (Error ''Invalid JSON format. Please check your data.'')"
  using importDataFromJson_truthiness
          [of "''{\"version\":\"v1\",\"periods\":null,\"portions\":0,\"expenses\":[]}''"
              "[(''version'', JStr ''v1''), (''periods'', JNull), (''portions'', JNum (Finite 0)), (''expenses'', JArr [])]"
              "''periods''" JNull sample_env]
  by (simp add: parse_null_periods)

section \<open>Reading back what \<open>JSON.stringify\<close> wrote\<close>

subsection \<open>Numbers\<close>

declare digits.simps [simp del]
















subsection \<open>Strings\<close>





lemma QuoteJSONString_Cons: "QuoteJSONString s @ r = CHR 0x22 # concat (map quote_char s) @ CHR 0x22 # r"
  by (simp add: QuoteJSONString_def)

subsection \<open>Arrays and objects\<close>



















subsection \<open>Export, then import\<close>


lemma is_AppData_AppData_json: "is_AppData (AppData_json d)"
proof -
  have "list_all is_Period (map Period_json ps)" for ps
    by (induction ps) (simp_all add: Period_json_def has_string_def has_number_def)
  moreover have "list_all is_Portion (map Portion_json ps)" for ps
    by (induction ps)
       (auto simp: Portion_json_def has_string_def has_number_def may_have_string_def
             split: option.splits)
  moreover have "list_all is_Expense (map Expense_json es)" for es
    by (induction es) (simp_all add: Expense_json_def has_string_def has_number_def)
  ultimately show ?thesis
    by (auto simp: AppData_json_def has_string_def has_array_def may_have_string_def
             split: option.splits)
qed







end
